theory Spec2Isabelle
  imports Main
begin

text \<open>
  A model of the query-safety code of MCPQL, a tool server for SQL Server: the operation
  classifier, the impact estimator, the audit logger and the store of pending operations
  (securityUtils.ts), the feature flags (security.ts), and the tools that execute
  statements and procedures (dataOperations.ts). The repository holds two versions of
  dataOperations.ts: one whose tools ask the feature flags for permission, and one whose
  tools ask for a confirmation token and are confirmed by \<open>mcp_confirm_and_execute\<close>.
  Both are modelled; the tools of the first carry the suffix \<open>_flagged\<close>.

  Pure functions of the source are functions here. Code with effects takes the state of
  the process and of its environment, a \<open>world\<close>, and returns it updated; an exception
  is a value of a sum type, and every \<^verbatim>\<open>catch\<close> of the source is a branch.
\<close>

section \<open>Text primitives of the JavaScript runtime\<close>

text \<open>
  Statements, procedure names and tokens are JavaScript strings. They are modelled as
  lists of characters with the codes 0 to 255, read as the code units U+0000 to U+00FF,
  so the texts of the model are the strings without a code unit above U+00FF.
  \<^item> \<open>isSpace\<close> is the class \<^verbatim>\<open>\s\<close> of regular expressions, which is also what
    \<^verbatim>\<open>trim\<close> strips: tab, line feed, vertical tab, form feed, carriage return,
    space and the no-break space U+00A0.
  \<^item> \<open>isLineTerminator\<close> holds of the characters that \<^verbatim>\<open>.\<close> refuses, and
    \<open>isWordChar\<close> is \<^verbatim>\<open>\w\<close>: letters a to z in both cases, digits and the
    underscore.
  \<^item> \<open>toUpperChar\<close> is the upper-case form of a character that has one of a single
    character: a..z and the letters U+00E0..U+00FE except the division sign. It is also
    the canonical form by which a pattern under the flag \<^verbatim>\<open>i\<close> compares characters.
  \<^item> \<open>toUpperCase\<close> is \<^verbatim>\<open>s.toUpperCase()\<close>, which in addition writes the sharp s
    U+00DF as SS.
  The upper-case forms of U+00FF and U+00B5 are U+0178 and U+039C, outside the range of
  the model. Both stand for themselves here: like their upper-case forms they are no white
  space, no word characters and equal to no character of a keyword, which is all that the
  code asks of a character of an upper-cased text.
\<close>

definition isSpace :: "char \<Rightarrow> bool" where
  "isSpace c =
     (c \<in> set [CHR 0x09, CHR 0x0A, CHR 0x0B, CHR 0x0C, CHR 0x0D, CHR 0x20, CHR 0xA0])"

definition isLineTerminator :: "char \<Rightarrow> bool" where
  "isLineTerminator c = (c \<in> set [CHR 0x0A, CHR 0x0D])"

definition isWordChar :: "char \<Rightarrow> bool" where
  "isWordChar c =
     (c \<in> set (''abcdefghijklmnopqrstuvwxyz'' @ ''ABCDEFGHIJKLMNOPQRSTUVWXYZ'' @ ''0123456789_''))"

definition lowerLetters :: string where
  "lowerLetters =
     ''abcdefghijklmnopqrstuvwxyz'' @
     [CHR 0xE0, CHR 0xE1, CHR 0xE2, CHR 0xE3, CHR 0xE4, CHR 0xE5, CHR 0xE6, CHR 0xE7,
      CHR 0xE8, CHR 0xE9, CHR 0xEA, CHR 0xEB, CHR 0xEC, CHR 0xED, CHR 0xEE, CHR 0xEF,
      CHR 0xF0, CHR 0xF1, CHR 0xF2, CHR 0xF3, CHR 0xF4, CHR 0xF5, CHR 0xF6, CHR 0xF8,
      CHR 0xF9, CHR 0xFA, CHR 0xFB, CHR 0xFC, CHR 0xFD, CHR 0xFE]"

definition upperLetters :: string where
  "upperLetters =
     ''ABCDEFGHIJKLMNOPQRSTUVWXYZ'' @
     [CHR 0xC0, CHR 0xC1, CHR 0xC2, CHR 0xC3, CHR 0xC4, CHR 0xC5, CHR 0xC6, CHR 0xC7,
      CHR 0xC8, CHR 0xC9, CHR 0xCA, CHR 0xCB, CHR 0xCC, CHR 0xCD, CHR 0xCE, CHR 0xCF,
      CHR 0xD0, CHR 0xD1, CHR 0xD2, CHR 0xD3, CHR 0xD4, CHR 0xD5, CHR 0xD6, CHR 0xD8,
      CHR 0xD9, CHR 0xDA, CHR 0xDB, CHR 0xDC, CHR 0xDD, CHR 0xDE]"

definition toUpperChar :: "char \<Rightarrow> char" where
  "toUpperChar c = (case map_of (zip lowerLetters upperLetters) c of Some u \<Rightarrow> u | None \<Rightarrow> c)"

definition sharpS :: char where
  "sharpS = CHR 0xDF"

definition upperOf :: "char \<Rightarrow> string" where
  "upperOf c = (if c = sharpS then ''SS'' else [toUpperChar c])"

definition toUpperCase :: "string \<Rightarrow> string" where
  "toUpperCase s = concat (map upperOf s)"

text \<open>\<^verbatim>\<open>s.trimEnd()\<close>: the trailing run of white space is dropped.\<close>

fun trimEnd :: "string \<Rightarrow> string" where
  "trimEnd [] = []"
| "trimEnd (c # s) = (let t = trimEnd s in if t = [] \<and> isSpace c then [] else c # t)"

definition trim :: "string \<Rightarrow> string" where
  "trim s = trimEnd (dropWhile isSpace s)"

text \<open>\<^verbatim>\<open>s.startsWith(p)\<close>.\<close>

fun startsWith :: "string \<Rightarrow> string \<Rightarrow> bool" where
  "startsWith s [] = True"
| "startsWith [] (p # ps) = False"
| "startsWith (c # cs) (p # ps) = (c = p \<and> startsWith cs ps)"

text \<open>
  The same without regard to case, as a pattern under the flag \<^verbatim>\<open>i\<close> compares:
  character by character in canonical form.
\<close>

fun startsWithI :: "string \<Rightarrow> string \<Rightarrow> bool" where
  "startsWithI s [] = True"
| "startsWithI [] (p # ps) = False"
| "startsWithI (c # cs) (p # ps) = (toUpperChar c = toUpperChar p \<and> startsWithI cs ps)"

text \<open>
  \<^verbatim>\<open>s.split(/\s+/)[0]\<close>: the text before the first run of white space; it is empty when
  the text is empty or starts with white space.
\<close>

definition firstToken :: "string \<Rightarrow> string" where
  "firstToken s = takeWhile (\<lambda>c. \<not> isSpace c) s"


section \<open>Operation classifier (securityUtils.ts)\<close>

datatype risk_level = LOW | MEDIUM | HIGH

record analysis =
  requiresConfirmation :: bool
  operation :: string
  riskLevel :: risk_level
  reason :: string

definition WRITE_OPERATIONS :: "string list" where
  "WRITE_OPERATIONS =
     [''INSERT'', ''UPDATE'', ''DELETE'', ''ALTER'', ''DROP'', ''TRUNCATE'',
      ''CREATE'', ''MERGE'', ''BULK'', ''EXEC'', ''EXECUTE'']"

definition READ_OPERATIONS :: "string list" where
  "READ_OPERATIONS = [''SELECT'', ''SHOW'', ''DESCRIBE'', ''DESC'', ''EXPLAIN'', ''WITH'']"

definition analyzeQuery :: "string \<Rightarrow> analysis" where
  "analyzeQuery sql =
     (let cleanSql = toUpperCase (trim sql);
          firstKeyword = firstToken cleanSql;
          isWriteOperation = list_ex (\<lambda>op. startsWith cleanSql op) WRITE_OPERATIONS
      in if isWriteOperation then
           (let (risk, why) =
                  (if firstKeyword = ''DELETE'' \<or> firstKeyword = ''DROP'' \<or> firstKeyword = ''TRUNCATE''
                   then (HIGH, ''High-risk '' @ firstKeyword @ '' operation that can permanently remove data'')
                   else if firstKeyword = ''ALTER''
                   then (HIGH, ''Schema modification operation that can affect database structure'')
                   else if firstKeyword = ''UPDATE''
                   then (MEDIUM, ''Data modification operation that updates existing records'')
                   else if firstKeyword = ''INSERT''
                   then (LOW, ''Data insertion operation that adds new records'')
                   else (MEDIUM, ''Detected '' @ firstKeyword @ '' operation which modifies data''))
            in \<lparr>requiresConfirmation = True, operation = firstKeyword,
                riskLevel = risk, reason = why\<rparr>)
         else if list_ex (\<lambda>op. startsWith cleanSql op) READ_OPERATIONS then
           \<lparr>requiresConfirmation = False, operation = firstKeyword, riskLevel = LOW,
            reason = ''Read-only '' @ firstKeyword @ '' operation''\<rparr>
         else
           \<lparr>requiresConfirmation = True,
            operation = (if firstKeyword = [] then ''UNKNOWN'' else firstKeyword),
            riskLevel = HIGH,
            reason = ''Unknown SQL operation - requires confirmation for safety''\<rparr>)"

section \<open>Regular expressions\<close>

text \<open>
  The regular expressions of the source are written as terms of \<open>rx\<close> and run by a
  backtracking matcher with the priorities of the JavaScript engine: a greedy repetition
  tries the longest run first, a lazy one the shortest, an alternative its left branch
  first, and the first complete match found in that order is the result. Literals are
  compared without regard to case (every pattern with letters carries the flag
  \<^verbatim>\<open>i\<close>). Repetition is only ever applied to a single character class in the source.
\<close>

datatype rx =
    Eps
  | LitI string
  | Cls "char \<Rightarrow> bool"
  | Seq rx rx
  | Alt rx rx
  | Opt rx
  | Star "char \<Rightarrow> bool"
  | Plus "char \<Rightarrow> bool"
  | StarLazy "char \<Rightarrow> bool"
  | Grp nat rx
  | Eoi
  | Eol

type_synonym captures = "nat \<rightharpoonup> string"

fun starGreedy :: "(char \<Rightarrow> bool) \<Rightarrow> string \<Rightarrow> (string \<Rightarrow> 'a option) \<Rightarrow> 'a option" where
  "starGreedy p [] k = k []"
| "starGreedy p (c # cs) k =
     (if p c then (case starGreedy p cs k of Some r \<Rightarrow> Some r | None \<Rightarrow> k (c # cs))
      else k (c # cs))"

fun starLazy :: "(char \<Rightarrow> bool) \<Rightarrow> string \<Rightarrow> (string \<Rightarrow> 'a option) \<Rightarrow> 'a option" where
  "starLazy p [] k = k []"
| "starLazy p (c # cs) k =
     (case k (c # cs) of Some r \<Rightarrow> Some r
      | None \<Rightarrow> if p c then starLazy p cs k else None)"

text \<open>
  \<open>rmatch r s g k\<close> matches \<open>r\<close> at the front of \<open>s\<close> with the groups \<open>g\<close> captured
  so far and hands the rest of the input to the continuation \<open>k\<close>; a continuation that
  fails makes the matcher backtrack. \<open>Eoi\<close> is \<^verbatim>\<open>$\<close>, \<open>Eol\<close> is \<^verbatim>\<open>$\<close> under the
  flag \<^verbatim>\<open>m\<close>.
\<close>

fun rmatch :: "rx \<Rightarrow> string \<Rightarrow> captures \<Rightarrow> (string \<Rightarrow> captures \<Rightarrow> 'a option) \<Rightarrow> 'a option" where
  "rmatch Eps s g k = k s g"
| "rmatch (LitI l) s g k =
     (if startsWithI s l then k (drop (length l) s) g else None)"
| "rmatch (Cls p) s g k = (case s of [] \<Rightarrow> None | c # cs \<Rightarrow> if p c then k cs g else None)"
| "rmatch (Seq a b) s g k = rmatch a s g (\<lambda>s' g'. rmatch b s' g' k)"
| "rmatch (Alt a b) s g k =
     (case rmatch a s g k of Some r \<Rightarrow> Some r | None \<Rightarrow> rmatch b s g k)"
| "rmatch (Opt a) s g k = (case rmatch a s g k of Some r \<Rightarrow> Some r | None \<Rightarrow> k s g)"
| "rmatch (Star p) s g k = starGreedy p s (\<lambda>s'. k s' g)"
| "rmatch (Plus p) s g k =
     (case s of [] \<Rightarrow> None
      | c # cs \<Rightarrow> if p c then starGreedy p cs (\<lambda>s'. k s' g) else None)"
| "rmatch (StarLazy p) s g k = starLazy p s (\<lambda>s'. k s' g)"
| "rmatch (Grp n a) s g k =
     rmatch a s g (\<lambda>s' g'. k s' (g'(n \<mapsto> take (length s - length s') s)))"
| "rmatch Eoi s g k = (if s = [] then k s g else None)"
| "rmatch Eol s g k =
     (case s of [] \<Rightarrow> k s g | c # cs \<Rightarrow> if isLineTerminator c then k s g else None)"

fun seqs :: "rx list \<Rightarrow> rx" where
  "seqs [] = Eps"
| "seqs [r] = r"
| "seqs (r # rs) = Seq r (seqs rs)"

fun alts :: "rx list \<Rightarrow> rx" where
  "alts [] = Cls (\<lambda>c. False)"
| "alts [r] = r"
| "alts (r # rs) = Alt r (alts rs)"

definition Chr :: "char \<Rightarrow> rx" where
  "Chr c = Cls (\<lambda>x. x = c)"

text \<open>A match at the front of the input: the rest of the input and the groups.\<close>

definition matchHere :: "rx \<Rightarrow> string \<Rightarrow> (string \<times> captures) option" where
  "matchHere r s = rmatch r s Map.empty (\<lambda>s' g. Some (s', g))"

text \<open>\<^verbatim>\<open>/^r/.test(s)\<close>: a pattern anchored with \<^verbatim>\<open>^\<close> is tried at the front only.\<close>

definition testAtStart :: "rx \<Rightarrow> string \<Rightarrow> bool" where
  "testAtStart r s = (matchHere r s \<noteq> None)"

text \<open>\<^verbatim>\<open>s.replace(/^r/, repl)\<close>.\<close>

definition replaceAtStart :: "rx \<Rightarrow> string \<Rightarrow> string \<Rightarrow> string" where
  "replaceAtStart r repl s =
     (case matchHere r s of None \<Rightarrow> s | Some (rest, g) \<Rightarrow> repl @ rest)"

text \<open>\<^verbatim>\<open>s.match(/r/)\<close>: the groups of the leftmost match.\<close>

fun rxSearch :: "rx \<Rightarrow> string \<Rightarrow> captures option" where
  "rxSearch r [] = map_option snd (matchHere r [])"
| "rxSearch r (c # cs) =
     (case matchHere r (c # cs) of Some (rest, g) \<Rightarrow> Some g | None \<Rightarrow> rxSearch r cs)"

text \<open>
  \<^verbatim>\<open>s.match(/r/g)\<close>: the texts of all matches from left to right, none overlapping
  (the empty list stands for \<^verbatim>\<open>null\<close>). After an empty match the search moves on
  by one character.
\<close>

function matchAll :: "rx \<Rightarrow> string \<Rightarrow> string list" where
  "matchAll r [] = (case matchHere r [] of None \<Rightarrow> [] | Some m \<Rightarrow> [[]])"
| "matchAll r (c # cs) =
     (case matchHere r (c # cs) of
        None \<Rightarrow> matchAll r cs
      | Some (rest, g) \<Rightarrow>
          (let n = length (c # cs) - length rest
           in if n = 0 then [] # matchAll r cs
              else take n (c # cs) # matchAll r (drop n (c # cs))))"
  by pat_completeness auto
termination
  by (relation "measure (\<lambda>(r, s). length s)") auto

text \<open>\<^verbatim>\<open>s.replace(/r/g, repl)\<close>.\<close>

function replaceAll :: "rx \<Rightarrow> string \<Rightarrow> string \<Rightarrow> string" where
  "replaceAll r repl [] = (case matchHere r [] of None \<Rightarrow> [] | Some m \<Rightarrow> repl)"
| "replaceAll r repl (c # cs) =
     (case matchHere r (c # cs) of
        None \<Rightarrow> c # replaceAll r repl cs
      | Some (rest, g) \<Rightarrow>
          (let n = length (c # cs) - length rest
           in if n = 0 then repl @ c # replaceAll r repl cs
              else repl @ replaceAll r repl (drop n (c # cs))))"
  by pat_completeness auto
termination
  by (relation "measure (\<lambda>(r, repl, s). length s)") auto


section \<open>The database handle, the clock and the process state\<close>

text \<open>
  The connection pool, the system clock, the random generator and the audit file are the
  environment of the tools. Each is an explicit part of the state \<open>world\<close>:
  \<^item> \<open>db_respond w history call\<close> is what the database answers to \<open>call\<close> after the
    calls of \<open>history\<close>: an error message (the driver throws) or a result. Every request
    sent through the pool is appended to \<open>db_calls\<close>, so the trace shows what reached the
    database. \<open>pool_connected\<close> is false while \<^verbatim>\<open>getPool()\<close> throws.
  \<^item> \<open>clock w n\<close> is the \<open>n\<close>-th reading of the clock in milliseconds
    (\<^verbatim>\<open>new Date()\<close>, \<^verbatim>\<open>Date.now()\<close>), \<open>random_src w n\<close> the text of the \<open>n\<close>-th
    \<^verbatim>\<open>Math.random().toString(36).substring(2, 8)\<close>.
  \<^item> \<open>audit_log\<close> is the content of the audit file, one entry per line written;
    \<open>audit_writable\<close> is false while appending to the file fails.
  \<^item> \<open>pendingOperations\<close> is the module-level map of securityUtils.ts.
  A row of a result set is kept as its integer-valued columns; parameters of a procedure
  call are kept as pairs of a name and the text of the value.
\<close>

type_synonym row = "(string \<times> int) list"

type_synonym params = "(string \<times> string) list"

datatype db_call = Query string | Execute string params

record db_result =
  rowsAffected :: "int list"
  recordset :: "row list option"

datatype audit_result = SUCCESS | FAILED | CANCELLED

record audit_entry =
  ae_timestamp :: int
  ae_operation :: string
  ae_sql :: string
  ae_riskLevel :: risk_level
  ae_userConfirmed :: bool
  ae_estimatedRows :: "int option"
  ae_affectedTables :: "string list option"
  ae_result :: "audit_result option"
  ae_error :: "string option"

record operation_request =
  op_sql :: string
  op_operation :: string
  op_riskLevel :: risk_level
  op_estimatedRows :: int
  op_affectedTables :: "string list"
  op_spName :: "string option"
  op_params :: "params option"

record pending_operation =
  po_request :: operation_request
  po_timestamp :: int

record world =
  pool_connected :: bool
  db_respond :: "db_call list \<Rightarrow> db_call \<Rightarrow> string + db_result"
  db_calls :: "db_call list"
  clock :: "nat \<Rightarrow> int"
  clock_reads :: nat
  random_src :: "nat \<Rightarrow> string"
  random_reads :: nat
  audit_writable :: bool
  audit_log :: "audit_entry list"
  pendingOperations :: "string \<rightharpoonup> pending_operation"

definition db_request :: "db_call \<Rightarrow> world \<Rightarrow> (string + db_result) \<times> world" where
  "db_request c w = (db_respond w (db_calls w) c, w\<lparr>db_calls := db_calls w @ [c]\<rparr>)"

definition newDate :: "world \<Rightarrow> int \<times> world" where
  "newDate w = (clock w (clock_reads w), w\<lparr>clock_reads := Suc (clock_reads w)\<rparr>)"

definition mathRandom :: "world \<Rightarrow> string \<times> world" where
  "mathRandom w = (random_src w (random_reads w), w\<lparr>random_reads := Suc (random_reads w)\<rparr>)"

text \<open>\<^verbatim>\<open>getPool()\<close> of db.ts throws this message while the pool is not connected.\<close>

definition getPool :: "world \<Rightarrow> string + unit" where
  "getPool w = (if pool_connected w then Inr () else Inl ''Database not connected. Call connectDB first.'')"

section \<open>Impact estimator (securityUtils.ts)\<close>

record impact =
  estimatedRows :: int
  affectedTables :: "string list"
  warning :: "string option"

text \<open>\<^verbatim>\<open>\[?\w+\]?\.?\[?\w+\]?\<close>\<close>

definition tableNameRx :: rx where
  "tableNameRx =
     seqs [Opt (Chr CHR ''[''), Plus isWordChar, Opt (Chr CHR '']''), Opt (Chr CHR ''.''),
           Opt (Chr CHR ''[''), Plus isWordChar, Opt (Chr CHR '']'')]"

definition clauseKeywordRx :: rx where
  "clauseKeywordRx = alts [LitI ''FROM'', LitI ''UPDATE'', LitI ''INTO'', LitI ''JOIN'']"

text \<open>\<^verbatim>\<open>/(?:FROM|UPDATE|INTO|JOIN)\s+(\[?\w+\]?\.?\[?\w+\]?)/gi\<close>\<close>

definition tableMatchRx :: rx where
  "tableMatchRx = seqs [clauseKeywordRx, Plus isSpace, Grp 1 tableNameRx]"

text \<open>\<^verbatim>\<open>/^(FROM|UPDATE|INTO|JOIN)\s+/i\<close>\<close>

definition clausePrefixRx :: rx where
  "clausePrefixRx = seqs [Grp 1 clauseKeywordRx, Plus isSpace]"

text \<open>\<^verbatim>\<open>/^DELETE\s+/i\<close>\<close>

definition deleteRx :: rx where
  "deleteRx = seqs [LitI ''DELETE'', Plus isSpace]"

text \<open>\<^verbatim>\<open>/UPDATE\s+(\[?\w+\]?\.?\[?\w+\]?)(?:\s+SET.*?)(\s+WHERE.*)?$/i\<close>\<close>

definition updateRx :: rx where
  "updateRx =
     seqs [LitI ''UPDATE'', Plus isSpace, Grp 1 tableNameRx,
           Plus isSpace, LitI ''SET'', StarLazy (\<lambda>c. \<not> isLineTerminator c),
           Opt (Grp 2 (seqs [Plus isSpace, LitI ''WHERE'', Star (\<lambda>c. \<not> isLineTerminator c)])),
           Eoi]"

text \<open>The loop over \<^verbatim>\<open>tableMatches\<close> that fills \<^verbatim>\<open>affectedTables\<close>.\<close>

definition extractTables :: "string \<Rightarrow> string list" where
  "extractTables sql =
     foldl (\<lambda>acc m. let tableName = trim (replaceAtStart clausePrefixRx [] m)
                     in if tableName \<in> set acc then acc else acc @ [tableName])
           [] (matchAll tableMatchRx sql)"

text \<open>
  The words in which the list of affected tables is described: "the names that follow
  FROM, UPDATE, INTO or JOIN". \<open>sameText k K\<close>: \<open>k\<close> is the keyword \<open>K\<close> in some
  letter case. \<open>clauseSpace s\<close>: the text \<open>s\<close> starts with one of the four keywords and
  white space after it. \<open>clauseThen s t\<close>: \<open>s\<close> starts with one of the keywords, white
  space, and then \<open>t\<close>. \<open>occursAfterClause sql t\<close>: that holds at some position of
  \<open>sql\<close>.
\<close>

definition clauseKeywords :: "string list" where
  "clauseKeywords = [''FROM'', ''UPDATE'', ''INTO'', ''JOIN'']"





text \<open>
  The value of \<^verbatim>\<open>countQuery\<close> for a statement whose trimmed upper-case text starts
  with DELETE or UPDATE; the empty text when no count query could be built.
\<close>

definition countQueryOf :: "string \<Rightarrow> string" where
  "countQueryOf sql =
     (let cleanSql = toUpperCase (trim sql)
      in if startsWith cleanSql ''DELETE''
         then replaceAtStart deleteRx ''SELECT COUNT(*) AS estimated_rows '' sql
         else if startsWith cleanSql ''UPDATE''
         then (case rxSearch updateRx sql of
                 None \<Rightarrow> []
               | Some fromMatch \<Rightarrow>
                   (let tableName = (case fromMatch 1 of Some t \<Rightarrow> t | None \<Rightarrow> []);
                        whereClause = (case fromMatch 2 of Some c \<Rightarrow> c | None \<Rightarrow> [])
                    in ''SELECT COUNT(*) AS estimated_rows FROM '' @ tableName @ whereClause))
         else [])"

text \<open>
  \<^verbatim>\<open>result.recordset[0]?.estimated_rows || 0\<close>; reading the first row of an absent
  result set throws, which is \<open>None\<close> here.
\<close>

definition estimatedRowsOf :: "db_result \<Rightarrow> int option" where
  "estimatedRowsOf result =
     (case recordset result of
        None \<Rightarrow> None
      | Some [] \<Rightarrow> Some 0
      | Some (r # rs) \<Rightarrow> (case map_of r ''estimated_rows'' of None \<Rightarrow> Some 0 | Some v \<Rightarrow> Some v))"

text \<open>
  \<open>estimateImpact\<close>. The pool argument is the connected handle of the state. Nothing
  in the outer \<^verbatim>\<open>try\<close> block can throw on a string outside the inner
  \<^verbatim>\<open>try\<close>, so the outer handler has no branch here.
\<close>

definition estimateImpact :: "string \<Rightarrow> world \<Rightarrow> impact \<times> world" where
  "estimateImpact sql w =
     (let cleanSql = toUpperCase (trim sql);
          tables = extractTables sql
      in if startsWith cleanSql ''DELETE'' \<or> startsWith cleanSql ''UPDATE'' then
           (let countQuery = countQueryOf sql
            in if countQuery \<noteq> [] then
                 (case db_request (Query countQuery) w of
                    (Inl err, w') \<Rightarrow>
                      (\<lparr>estimatedRows = 0, affectedTables = tables,
                        warning = Some ''Could not estimate the number of affected rows''\<rparr>, w')
                  | (Inr result, w') \<Rightarrow>
                      (case estimatedRowsOf result of
                         None \<Rightarrow>
                           (\<lparr>estimatedRows = 0, affectedTables = tables,
                             warning = Some ''Could not estimate the number of affected rows''\<rparr>, w')
                       | Some n \<Rightarrow>
                           (\<lparr>estimatedRows = n, affectedTables = tables,
                             warning = (if n > 1000
                                        then Some ''Large number of rows may be affected''
                                        else None)\<rparr>, w')))
               else (\<lparr>estimatedRows = 0, affectedTables = tables, warning = None\<rparr>, w))
         else (\<lparr>estimatedRows = 0, affectedTables = tables, warning = None\<rparr>, w))"

text \<open>
  The requests that \<open>estimateImpact\<close> sends to the database for a statement: the count
  query, when the statement starts with DELETE or UPDATE and a count query was built.
\<close>

definition estimatorRequests :: "string \<Rightarrow> db_call list" where
  "estimatorRequests sql =
     (let cleanSql = toUpperCase (trim sql)
      in if (startsWith cleanSql ''DELETE'' \<or> startsWith cleanSql ''UPDATE'') \<and> countQueryOf sql \<noteq> []
         then [Query (countQueryOf sql)]
         else [])"

section \<open>Audit log, confirmation tokens and the pending operation store (securityUtils.ts)\<close>

text \<open>
  \<open>logSecurityEvent\<close> appends one entry to the audit file; the statement is cut to 500
  characters. A failing write is caught and reported on the console only.
\<close>

definition logSecurityEvent :: "audit_entry \<Rightarrow> world \<Rightarrow> world" where
  "logSecurityEvent event w =
     (if audit_writable w
      then w\<lparr>audit_log := audit_log w @ [event\<lparr>ae_sql := take 500 (ae_sql event)\<rparr>]\<rparr>
      else w)"

text \<open>\<^verbatim>\<open>n.toString(36)\<close>\<close>

definition digit36 :: "nat \<Rightarrow> char" where
  "digit36 d = ''0123456789abcdefghijklmnopqrstuvwxyz'' ! d"

function natToString36 :: "nat \<Rightarrow> string" where
  "natToString36 n = (if n < 36 then [digit36 n] else natToString36 (n div 36) @ [digit36 (n mod 36)])"
  by pat_completeness auto
termination
  by (relation "measure id") auto

definition toString36 :: "int \<Rightarrow> string" where
  "toString36 i = (if i < 0 then CHR ''-'' # natToString36 (nat (- i)) else natToString36 (nat i))"

definition generateConfirmationToken :: "world \<Rightarrow> string \<times> world" where
  "generateConfirmationToken w =
     (let (timestamp, w1) = newDate w;
          (random, w2) = mathRandom w1
      in (toUpperCase (''CONF_'' @ toString36 timestamp @ ''_'' @ random), w2))"

definition maxAge :: int where
  "maxAge = 5 * 60 * 1000"

definition cleanupExpiredTokens :: "world \<Rightarrow> world" where
  "cleanupExpiredTokens w =
     (let (now, w1) = newDate w
      in w1\<lparr>pendingOperations :=
             (\<lambda>token. case pendingOperations w1 token of
                         None \<Rightarrow> None
                       | Some entry \<Rightarrow>
                           if now - po_timestamp entry > maxAge then None else Some entry)\<rparr>)"

definition storePendingOperation :: "string \<Rightarrow> operation_request \<Rightarrow> world \<Rightarrow> world" where
  "storePendingOperation token request w =
     (let (now, w1) = newDate w;
          w2 = w1\<lparr>pendingOperations :=
                   (pendingOperations w1)(token \<mapsto> \<lparr>po_request = request, po_timestamp = now\<rparr>)\<rparr>
      in cleanupExpiredTokens w2)"

definition getPendingOperation :: "string \<Rightarrow> world \<Rightarrow> pending_operation option \<times> world" where
  "getPendingOperation token w =
     (case pendingOperations w token of
        None \<Rightarrow> (None, w)
      | Some entry \<Rightarrow>
          (let (now, w1) = newDate w;
               tokenAge = now - po_timestamp entry
           in if tokenAge > maxAge
              then (None, w1\<lparr>pendingOperations := (pendingOperations w1)(token := None)\<rparr>)
              else (Some entry, w1)))"

definition removePendingOperation :: "string \<Rightarrow> world \<Rightarrow> world" where
  "removePendingOperation token w = w\<lparr>pendingOperations := (pendingOperations w)(token := None)\<rparr>"

section \<open>Feature flags (security.ts)\<close>

record security_config =
  ALLOW_MODIFICATIONS :: bool
  ALLOW_STORED_PROCEDURES :: bool

record permission =
  allowed :: bool
  message :: "string option"

definition MODIFICATION_KEYWORDS :: "string list" where
  "MODIFICATION_KEYWORDS =
     [''INSERT'', ''UPDATE'', ''DELETE'', ''DROP'', ''CREATE'', ''ALTER'',
      ''TRUNCATE'', ''MERGE'', ''BULK'', ''EXEC'', ''EXECUTE'']"

text \<open>\<^verbatim>\<open>/--.*$/gm\<close>\<close>

definition lineCommentRx :: rx where
  "lineCommentRx = seqs [LitI ''--'', Star (\<lambda>c. \<not> isLineTerminator c), Eol]"

text \<open>\<^verbatim>\<open>/\/\*[\s\S]*?\*\//g\<close>\<close>

definition blockCommentRx :: rx where
  "blockCommentRx = seqs [LitI ''/*'', StarLazy (\<lambda>c. True), LitI ''*/'']"

text \<open>
  \<^verbatim>\<open>new RegExp(`\\b${keyword}\\b`, 'i').test(s)\<close> for a keyword made of word
  characters: the keyword occurs with no word character right before it and none right
  after it. \<open>prevWord\<close> tells whether the character before the current position is a
  word character.
\<close>

definition keywordHere :: "string \<Rightarrow> string \<Rightarrow> bool" where
  "keywordHere keyword s =
     (startsWithI s keyword \<and>
      (case drop (length keyword) s of [] \<Rightarrow> True | c # cs \<Rightarrow> \<not> isWordChar c))"

fun wordTestFrom :: "string \<Rightarrow> bool \<Rightarrow> string \<Rightarrow> bool" where
  "wordTestFrom keyword prevWord [] = False"
| "wordTestFrom keyword prevWord (c # cs) =
     ((\<not> prevWord \<and> keywordHere keyword (c # cs)) \<or> wordTestFrom keyword (isWordChar c) cs)"

definition wordTest :: "string \<Rightarrow> string \<Rightarrow> bool" where
  "wordTest keyword s = wordTestFrom keyword False s"

definition containsModificationOperations :: "string \<Rightarrow> bool" where
  "containsModificationOperations query =
     (if query = [] then False
      else (let cleanQuery =
                  toUpperCase (trim (replaceAll (Plus isSpace) '' ''
                    (replaceAll blockCommentRx [] (replaceAll lineCommentRx [] query))))
            in list_ex (\<lambda>keyword. wordTest keyword cleanQuery) MODIFICATION_KEYWORDS))"



definition showBool :: "bool \<Rightarrow> string" where
  "showBool b = (if b then ''true'' else ''false'')"

definition nl :: string where
  "nl = [CHR 0x0A]"

definition validateModificationPermission :: "security_config \<Rightarrow> string \<Rightarrow> permission" where
  "validateModificationPermission cfg requested =
     (if \<not> ALLOW_MODIFICATIONS cfg then
        \<lparr>allowed = False,
         message = Some (
           ''[X] OPERATION BLOCKED: Database modifications are disabled for security.'' @ nl @
           nl @
           ''[*] REQUESTED OPERATION: '' @ requested @ nl @
           nl @
           ''[+] TO ENABLE MODIFICATIONS:'' @ nl @
           ''Configure the environment variable: DB_ALLOW_MODIFICATIONS=true'' @ nl @
           nl @
           ''[!] WARNING: Only enable modifications if you are sure it is safe to do so.'' @ nl @
           ''In production environments, keep this setting as '' @ [CHR 0x27] @ ''false'' @ [CHR 0x27] @
           '' to prevent accidental changes.'' @ nl @
           nl @
           ''[#] CURRENT CONFIGURATION:'' @ nl @
           ''- DB_ALLOW_MODIFICATIONS: '' @ showBool (ALLOW_MODIFICATIONS cfg) @ nl @
           ''- DB_ALLOW_STORED_PROCEDURES: '' @ showBool (ALLOW_STORED_PROCEDURES cfg))\<rparr>
      else \<lparr>allowed = True, message = None\<rparr>)"

definition validateStoredProcedurePermission :: "security_config \<Rightarrow> string \<Rightarrow> permission" where
  "validateStoredProcedurePermission cfg spName =
     (if \<not> ALLOW_STORED_PROCEDURES cfg then
        \<lparr>allowed = False,
         message = Some (
           ''[X] EXECUTION BLOCKED: Stored procedure execution is disabled for security.'' @ nl @
           nl @
           ''[*] REQUESTED STORED PROCEDURE: '' @ spName @ nl @
           nl @
           ''[+] TO ENABLE STORED PROCEDURES:'' @ nl @
           ''Configure the environment variable: DB_ALLOW_STORED_PROCEDURES=true'' @ nl @
           nl @
           ''[!] WARNING: Stored procedures can perform database modifications.'' @ nl @
           ''Only enable this function if you are sure it is safe to do so.'' @ nl @
           nl @
           ''[#] CURRENT CONFIGURATION:'' @ nl @
           ''- DB_ALLOW_MODIFICATIONS: '' @ showBool (ALLOW_MODIFICATIONS cfg) @ nl @
           ''- DB_ALLOW_STORED_PROCEDURES: '' @ showBool (ALLOW_STORED_PROCEDURES cfg) @ nl @
           nl @
           ''[i] SAFE ALTERNATIVE:'' @ nl @
           ''You can use '' @ [CHR 0x27] @ ''mcp_sp_structure'' @ [CHR 0x27] @
           '' to analyze the stored procedure without executing it.'')\<rparr>
      else \<lparr>allowed = True, message = None\<rparr>)"

definition validateQueryPermission :: "security_config \<Rightarrow> string \<Rightarrow> permission" where
  "validateQueryPermission cfg query =
     (if query = [] then \<lparr>allowed = False, message = Some ''Empty or invalid query''\<rparr>
      else if containsModificationOperations query
      then validateModificationPermission cfg (''SQL Query: '' @ take 100 query @ ''...'')
      else \<lparr>allowed = True, message = None\<rparr>)"

section \<open>Tool results\<close>

text \<open>
  A tool returns \<^verbatim>\<open>{success: true, data}\<close> or \<^verbatim>\<open>{success: false, error}\<close>. The data
  of a query or procedure call is the result set; the data of a confirmed execution is
  the first count of affected rows (0 if there is none) and the result set (empty if
  there is none). The error of a proposal that awaits confirmation is the text
  \<^verbatim>\<open>SECURITY_CONFIRMATION_REQUIRED: ...\<close> rendered from the analysis, the impact and
  the token; \<open>ConfirmationRequired\<close> keeps these three instead of the rendered text.
\<close>

datatype tool_data = Recordset "row list option" | ExecutionReport int "row list"

datatype tool_error = ErrorText string | ConfirmationRequired analysis impact string

datatype tool_result = ToolSuccess tool_data | ToolError tool_error

text \<open>\<^verbatim>\<open>text || fallback\<close>\<close>

definition orElse :: "string option \<Rightarrow> string \<Rightarrow> string" where
  "orElse text fallback = (case text of None \<Rightarrow> fallback | Some t \<Rightarrow> if t = [] then fallback else t)"

definition paramsOf :: "params option \<Rightarrow> params" where
  "paramsOf ps = (case ps of None \<Rightarrow> [] | Some entries \<Rightarrow> entries)"

section \<open>Tools guarded by the feature flags (dataOperations.ts, first version)\<close>

text \<open>
  The version of dataOperations.ts that imports security.ts. \<open>cfg\<close> is
  \<^verbatim>\<open>SECURITY_CONFIG\<close>, read from the environment when the process starts.
\<close>

definition mcp_execute_procedure_flagged ::
  "security_config \<Rightarrow> string \<Rightarrow> params option \<Rightarrow> world \<Rightarrow> tool_result \<times> world" where
  "mcp_execute_procedure_flagged cfg sp_name ps w =
     (let permission = validateStoredProcedurePermission cfg sp_name
      in if \<not> allowed permission
         then (ToolError (ErrorText (orElse (message permission)
                                            ''Stored procedure execution not allowed'')), w)
         else (case getPool w of
                 Inl err \<Rightarrow> (ToolError (ErrorText err), w)
               | Inr pool \<Rightarrow>
                   (case db_request (Execute sp_name (paramsOf ps)) w of
                      (Inl err, w') \<Rightarrow> (ToolError (ErrorText err), w')
                    | (Inr result, w') \<Rightarrow> (ToolSuccess (Recordset (recordset result)), w'))))"

definition mcp_execute_query_flagged ::
  "security_config \<Rightarrow> string \<Rightarrow> world \<Rightarrow> tool_result \<times> world" where
  "mcp_execute_query_flagged cfg query w =
     (let permission = validateQueryPermission cfg query
      in if \<not> allowed permission
         then (ToolError (ErrorText (orElse (message permission) ''Query execution not allowed'')), w)
         else (case getPool w of
                 Inl err \<Rightarrow> (ToolError (ErrorText err), w)
               | Inr pool \<Rightarrow>
                   (case db_request (Query query) w of
                      (Inl err, w') \<Rightarrow> (ToolError (ErrorText err), w')
                    | (Inr result, w') \<Rightarrow> (ToolSuccess (Recordset (recordset result)), w'))))"

section \<open>Tools guarded by confirmation tokens (dataOperations.ts, second version)\<close>

text \<open>
  The version of dataOperations.ts that imports securityUtils.ts. It does not import
  security.ts and reads no feature flag.
\<close>

text \<open>\<^verbatim>\<open>/^(usp_Get|usp_Select|usp_Search|usp_Find|usp_List|usp_View)/i\<close>\<close>

definition readOnlyProcedureRx :: rx where
  "readOnlyProcedureRx =
     Grp 1 (alts [LitI ''usp_Get'', LitI ''usp_Select'', LitI ''usp_Search'',
                  LitI ''usp_Find'', LitI ''usp_List'', LitI ''usp_View''])"

definition procedureFailed :: "int \<Rightarrow> string \<Rightarrow> string \<Rightarrow> world \<Rightarrow> tool_result \<times> world" where
  "procedureFailed timestamp sp_name err w =
     (ToolError (ErrorText err),
      logSecurityEvent
        \<lparr>ae_timestamp = timestamp, ae_operation = ''EXECUTE'', ae_sql = ''EXEC '' @ sp_name,
         ae_riskLevel = MEDIUM, ae_userConfirmed = False, ae_estimatedRows = None,
         ae_affectedTables = None, ae_result = Some FAILED, ae_error = Some err\<rparr> w)"

definition mcp_execute_procedure :: "string \<Rightarrow> params option \<Rightarrow> world \<Rightarrow> tool_result \<times> world" where
  "mcp_execute_procedure sp_name ps w =
     (let (timestamp, w0) = newDate w;
          isReadOnlyProcedure = testAtStart readOnlyProcedureRx sp_name
      in if isReadOnlyProcedure then
           (case getPool w0 of
              Inl err \<Rightarrow> procedureFailed timestamp sp_name err w0
            | Inr pool \<Rightarrow>
                (case db_request (Execute sp_name (paramsOf ps)) w0 of
                   (Inl err, w1) \<Rightarrow> procedureFailed timestamp sp_name err w1
                 | (Inr result, w1) \<Rightarrow>
                     (ToolSuccess (Recordset (recordset result)),
                      logSecurityEvent
                        \<lparr>ae_timestamp = timestamp, ae_operation = ''EXECUTE'',
                         ae_sql = ''EXEC '' @ sp_name, ae_riskLevel = LOW,
                         ae_userConfirmed = False, ae_estimatedRows = None,
                         ae_affectedTables = None, ae_result = Some SUCCESS,
                         ae_error = None\<rparr> w1)))
         else
           (let (token, w1) = generateConfirmationToken w0;
                w2 = storePendingOperation token
                       \<lparr>op_sql = ''EXEC '' @ sp_name, op_operation = ''STORED_PROCEDURE'',
                        op_riskLevel = MEDIUM, op_estimatedRows = 0,
                        op_affectedTables = [''Unknown - Stored Procedure''],
                        op_spName = Some sp_name, op_params = ps\<rparr> w1;
                analysis = \<lparr>requiresConfirmation = True, operation = ''EXECUTE'',
                            riskLevel = MEDIUM,
                            reason = ''Stored procedure execution may modify data''\<rparr>;
                impact = \<lparr>estimatedRows = 0,
                          affectedTables = [''Unknown - Stored Procedure''], warning = None\<rparr>;
                w3 = logSecurityEvent
                       \<lparr>ae_timestamp = timestamp, ae_operation = operation analysis,
                        ae_sql = ''EXEC '' @ sp_name, ae_riskLevel = riskLevel analysis,
                        ae_userConfirmed = False,
                        ae_estimatedRows = Some (estimatedRows impact),
                        ae_affectedTables = Some (affectedTables impact),
                        ae_result = Some CANCELLED,
                        ae_error = Some ''Pending user confirmation''\<rparr> w2
            in (ToolError (ConfirmationRequired analysis impact token), w3)))"

definition queryFailed :: "int \<Rightarrow> string \<Rightarrow> string \<Rightarrow> world \<Rightarrow> tool_result \<times> world" where
  "queryFailed timestamp query err w =
     (let analysis = analyzeQuery query
      in (ToolError (ErrorText err),
          logSecurityEvent
            \<lparr>ae_timestamp = timestamp, ae_operation = operation analysis, ae_sql = query,
             ae_riskLevel = riskLevel analysis, ae_userConfirmed = False,
             ae_estimatedRows = None, ae_affectedTables = None,
             ae_result = Some FAILED, ae_error = Some err\<rparr> w))"

definition mcp_execute_query :: "string \<Rightarrow> world \<Rightarrow> tool_result \<times> world" where
  "mcp_execute_query query w =
     (let (timestamp, w0) = newDate w;
          analysis = analyzeQuery query
      in if \<not> requiresConfirmation analysis then
           (let w1 = logSecurityEvent
                       \<lparr>ae_timestamp = timestamp, ae_operation = operation analysis,
                        ae_sql = query, ae_riskLevel = riskLevel analysis,
                        ae_userConfirmed = False, ae_estimatedRows = None,
                        ae_affectedTables = None, ae_result = Some SUCCESS,
                        ae_error = None\<rparr> w0
            in case getPool w1 of
                 Inl err \<Rightarrow> queryFailed timestamp query err w1
               | Inr pool \<Rightarrow>
                   (case db_request (Query query) w1 of
                      (Inl err, w2) \<Rightarrow> queryFailed timestamp query err w2
                    | (Inr result, w2) \<Rightarrow> (ToolSuccess (Recordset (recordset result)), w2)))
         else
           (case getPool w0 of
              Inl err \<Rightarrow> queryFailed timestamp query err w0
            | Inr pool \<Rightarrow>
                (let (impact, w1) = estimateImpact query w0;
                     (token, w2) = generateConfirmationToken w1;
                     w3 = storePendingOperation token
                            \<lparr>op_sql = query, op_operation = operation analysis,
                             op_riskLevel = riskLevel analysis,
                             op_estimatedRows = estimatedRows impact,
                             op_affectedTables = affectedTables impact,
                             op_spName = None, op_params = None\<rparr> w2;
                     w4 = logSecurityEvent
                            \<lparr>ae_timestamp = timestamp, ae_operation = operation analysis,
                             ae_sql = query, ae_riskLevel = riskLevel analysis,
                             ae_userConfirmed = False,
                             ae_estimatedRows = Some (estimatedRows impact),
                             ae_affectedTables = Some (affectedTables impact),
                             ae_result = Some CANCELLED,
                             ae_error = Some ''Pending user confirmation''\<rparr> w3
                 in (ToolError (ConfirmationRequired analysis impact token), w4))))"

text \<open>
  The request that \<open>mcp_confirm_and_execute\<close> sends for a stored operation: a procedure
  call for the operation \<^verbatim>\<open>STORED_PROCEDURE\<close> (named \<^verbatim>\<open>spName || sql\<close>), the
  statement itself otherwise.
\<close>

definition storedCall :: "operation_request \<Rightarrow> db_call" where
  "storedCall request =
     (if op_operation request = ''STORED_PROCEDURE''
      then Execute (orElse (op_spName request) (op_sql request)) (paramsOf (op_params request))
      else Query (op_sql request))"

definition confirmFailed :: "string \<Rightarrow> world \<Rightarrow> tool_result \<times> world" where
  "confirmFailed err w =
     (let (now, w1) = newDate w
      in (ToolError (ErrorText err),
          logSecurityEvent
            \<lparr>ae_timestamp = now, ae_operation = ''UNKNOWN'', ae_sql = ''FAILED_CONFIRMATION'',
             ae_riskLevel = HIGH, ae_userConfirmed = True, ae_estimatedRows = None,
             ae_affectedTables = None, ae_result = Some FAILED, ae_error = Some err\<rparr> w1))"

definition invalidTokenMessage :: string where
  "invalidTokenMessage = ''Invalid or expired confirmation token. Please generate a new analysis.''"

definition mcp_confirm_and_execute :: "string \<Rightarrow> world \<Rightarrow> tool_result \<times> world" where
  "mcp_confirm_and_execute confirmation_token w =
     (case getPendingOperation confirmation_token w of
        (None, w1) \<Rightarrow> (ToolError (ErrorText invalidTokenMessage), w1)
      | (Some pendingOp, w1) \<Rightarrow>
          (let request = po_request pendingOp;
               sql = op_sql request
           in case getPool w1 of
                Inl err \<Rightarrow> confirmFailed err w1
              | Inr pool \<Rightarrow>
                  (case db_request (storedCall request) w1 of
                     (Inl err, w2) \<Rightarrow> confirmFailed err w2
                   | (Inr result, w2) \<Rightarrow>
                       (let w3 = removePendingOperation confirmation_token w2;
                            analysis = analyzeQuery sql;
                            (impact, w4) = estimateImpact sql w3;
                            (now, w5) = newDate w4;
                            w6 = logSecurityEvent
                                   \<lparr>ae_timestamp = now, ae_operation = operation analysis,
                                    ae_sql = sql, ae_riskLevel = riskLevel analysis,
                                    ae_userConfirmed = True,
                                    ae_estimatedRows = Some (estimatedRows impact),
                                    ae_affectedTables = Some (affectedTables impact),
                                    ae_result = Some SUCCESS, ae_error = None\<rparr> w5
                        in (ToolSuccess
                              (ExecutionReport
                                 (case rowsAffected result of [] \<Rightarrow> 0 | n # ns \<Rightarrow> n)
                                 (case recordset result of None \<Rightarrow> [] | Some rows \<Rightarrow> rows)),
                            w6)))))"

section \<open>Example states\<close>

text \<open>
  Concrete states on which the tools are run below: a connected pool, a clock whose
  \<open>n\<close>-th reading is \<open>n\<close> milliseconds, an empty audit file and an empty store. The
  database of \<open>alwaysOk\<close> answers every request with one affected row and one row
  \<^verbatim>\<open>{estimated_rows: 1}\<close>; the database of \<open>failsAt n\<close> throws on the request that
  comes after \<open>n\<close> earlier ones and answers like \<open>alwaysOk\<close> otherwise.
\<close>

definition okResult :: db_result where
  "okResult = \<lparr>rowsAffected = [1], recordset = Some [[(''estimated_rows'', 1)]]\<rparr>"

definition alwaysOk :: "db_call list \<Rightarrow> db_call \<Rightarrow> string + db_result" where
  "alwaysOk history call = Inr okResult"

definition failsAt :: "nat \<Rightarrow> db_call list \<Rightarrow> db_call \<Rightarrow> string + db_result" where
  "failsAt n history call =
     (if length history = n then Inl ''Transaction was deadlocked'' else Inr okResult)"

definition exampleWorld :: "(db_call list \<Rightarrow> db_call \<Rightarrow> string + db_result) \<Rightarrow> world" where
  "exampleWorld respond =
     \<lparr>pool_connected = True, db_respond = respond, db_calls = [],
      clock = (\<lambda>n. int n), clock_reads = 0,
      random_src = (\<lambda>n. ''k3x9q2''), random_reads = 0,
      audit_writable = True, audit_log = [], pendingOperations = Map.empty\<rparr>"

definition flagsOff :: security_config where
  "flagsOff = \<lparr>ALLOW_MODIFICATIONS = False, ALLOW_STORED_PROCEDURES = False\<rparr>"

text \<open>
  The state after a DELETE has been proposed to \<open>mcp_execute_query\<close>, and the state after
  a procedure outside the read-only prefixes has been proposed to \<open>mcp_execute_procedure\<close>.
  Both proposals mint the token \<open>exampleToken\<close> (second clock reading 1, random text
  \<^verbatim>\<open>k3x9q2\<close>) and store their entry at the third clock reading, 2.
\<close>

definition proposedDelete :: "(db_call list \<Rightarrow> db_call \<Rightarrow> string + db_result) \<Rightarrow> world" where
  "proposedDelete respond = snd (mcp_execute_query ''DELETE FROM tt'' (exampleWorld respond))"

definition proposedProcedure :: "(db_call list \<Rightarrow> db_call \<Rightarrow> string + db_result) \<Rightarrow> world" where
  "proposedProcedure respond =
     snd (mcp_execute_procedure ''usp_PurgeOrders'' None (exampleWorld respond))"

definition exampleToken :: string where
  "exampleToken = ''CONF_1_K3X9Q2''"

definition pendingDelete :: pending_operation where
  "pendingDelete =
     \<lparr>po_request =
        \<lparr>op_sql = ''DELETE FROM tt'', op_operation = ''DELETE'', op_riskLevel = HIGH,
         op_estimatedRows = 1, op_affectedTables = [''tt''], op_spName = None,
         op_params = None\<rparr>,
      po_timestamp = 2\<rparr>"

definition pendingProcedure :: pending_operation where
  "pendingProcedure =
     \<lparr>po_request =
        \<lparr>op_sql = ''EXEC usp_PurgeOrders'', op_operation = ''STORED_PROCEDURE'',
         op_riskLevel = MEDIUM, op_estimatedRows = 0,
         op_affectedTables = [''Unknown - Stored Procedure''],
         op_spName = Some ''usp_PurgeOrders'', op_params = None\<rparr>,
      po_timestamp = 2\<rparr>"

text \<open>The same state read by a clock that shows \<open>now\<close> at every reading.\<close>

definition atTime :: "int \<Rightarrow> world \<Rightarrow> world" where
  "atTime now w = w\<lparr>clock := (\<lambda>n. now)\<rparr>"

section \<open>Properties of the text primitives\<close>

lemma startsWith_append: "startsWith (p @ r) p"
  by (induction p) auto

lemma startsWithD: "startsWith s p \<Longrightarrow> \<exists>r. s = p @ r"
  by (induction s p rule: startsWith.induct) auto

lemma startsWith_firstToken: "startsWith s (firstToken s)"
proof -
  have "s = firstToken s @ dropWhile (\<lambda>c. \<not> isSpace c) s"
    by (simp add: firstToken_def)
  then show ?thesis using startsWith_append by metis
qed



text \<open>The table of upper-case forms: no upper-case letter has an upper-case form of its own.\<close>

lemma upper_tables:
  "list_all (\<lambda>u. map_of (zip lowerLetters upperLetters) u = None \<and> \<not> isSpace u \<and> u \<noteq> sharpS)
     upperLetters"
  "list_all (\<lambda>l. \<not> isSpace l \<and> l \<noteq> sharpS) lowerLetters"
  "list_all (\<lambda>(l, u). isWordChar l = isWordChar u) (zip lowerLetters upperLetters)"
  by code_simp+

lemma toUpperChar_cases:
  "toUpperChar c = c \<and> map_of (zip lowerLetters upperLetters) c = None \<or>
   c \<in> set lowerLetters \<and> toUpperChar c \<in> set upperLetters \<and>
   (c, toUpperChar c) \<in> set (zip lowerLetters upperLetters)"
proof (cases "map_of (zip lowerLetters upperLetters) c")
  case None
  then show ?thesis by (simp add: toUpperChar_def)
next
  case (Some u)
  then have "(c, u) \<in> set (zip lowerLetters upperLetters)" by (rule map_of_SomeD)
  then show ?thesis using Some by (auto simp: toUpperChar_def dest: set_zip_leftD set_zip_rightD)
qed

lemma isSpace_toUpperChar: "isSpace (toUpperChar c) = isSpace c"
  using toUpperChar_cases [of c] upper_tables(1,2) by (auto simp: list_all_iff)


lemma toUpperChar_idem: "toUpperChar (toUpperChar c) = toUpperChar c"
  using toUpperChar_cases [of c] upper_tables(1)
  by (auto simp: list_all_iff toUpperChar_def)

lemma toUpperChar_sharpS: "(toUpperChar c = sharpS) = (c = sharpS)"
proof -
  have "toUpperChar sharpS = sharpS" by code_simp
  then show ?thesis
    using toUpperChar_cases [of c] upper_tables(1) by (auto simp: list_all_iff)
qed

lemma isSpace_sharpS: "\<not> isSpace sharpS"
  by code_simp

lemma upperOf_space: "isSpace c \<Longrightarrow> upperOf c = [c]"
  using toUpperChar_cases [of c] upper_tables(2) isSpace_sharpS
  by (auto simp: upperOf_def list_all_iff)

lemma upperOf_no_space: "\<not> isSpace c \<Longrightarrow> x \<in> set (upperOf c) \<Longrightarrow> \<not> isSpace x"
proof -
  have "\<not> isSpace CHR ''S''" by code_simp
  then show "\<not> isSpace c \<Longrightarrow> x \<in> set (upperOf c) \<Longrightarrow> \<not> isSpace x"
    by (auto simp: upperOf_def isSpace_toUpperChar split: if_splits)
qed

lemma upperOf_nonempty: "upperOf c \<noteq> []"
  by (simp add: upperOf_def)

lemma upperOf_hd_space: "isSpace (hd (upperOf c)) = isSpace c"
  using upperOf_space [of c] upperOf_no_space [of c "hd (upperOf c)"] upperOf_nonempty [of c]
  by (cases "isSpace c") auto

lemma toUpperCase_Nil: "toUpperCase [] = []"
  by (simp add: toUpperCase_def)

lemma toUpperCase_Cons: "toUpperCase (c # s) = upperOf c @ toUpperCase s"
  by (simp add: toUpperCase_def)

lemma toUpperCase_append: "toUpperCase (a @ b) = toUpperCase a @ toUpperCase b"
  by (simp add: toUpperCase_def)

lemma toUpperCase_empty: "(toUpperCase s = []) = (s = [])"
  by (cases s) (simp_all add: toUpperCase_def upperOf_nonempty)

lemma toUpperCase_upperOf: "toUpperCase (upperOf c) = upperOf c"
proof (cases "c = sharpS")
  case True
  have "toUpperCase ''SS'' = ''SS''" by code_simp
  then show ?thesis using True by (simp add: upperOf_def)
next
  case False
  then show ?thesis
    by (simp add: upperOf_def toUpperCase_def toUpperChar_sharpS toUpperChar_idem)
qed

lemma toUpperCase_idem: "toUpperCase (toUpperCase s) = toUpperCase s"
  by (induction s) (simp_all add: toUpperCase_Nil toUpperCase_Cons toUpperCase_append toUpperCase_upperOf)

lemma trimEnd_no_space: "\<forall>x \<in> set xs. \<not> isSpace x \<Longrightarrow> trimEnd (xs @ s) = xs @ trimEnd s"
  by (induction xs) (auto simp: Let_def)

lemma trimEnd_empty: "(trimEnd s = []) = (\<forall>x \<in> set s. isSpace x)"
  by (induction s) (auto simp: Let_def)

lemma trimEnd_toUpperCase: "trimEnd (toUpperCase s) = toUpperCase (trimEnd s)"
proof (induction s)
  case Nil
  then show ?case by (simp add: toUpperCase_Nil)
next
  case (Cons c s)
  show ?case
  proof (cases "isSpace c")
    case True
    then show ?thesis
      using Cons by (simp add: toUpperCase_Cons upperOf_space Let_def toUpperCase_Nil toUpperCase_empty)
  next
    case False
    then have "\<forall>x \<in> set (upperOf c). \<not> isSpace x" using upperOf_no_space by blast
    then show ?thesis
      using Cons False by (simp add: toUpperCase_Cons trimEnd_no_space Let_def)
  qed
qed

lemma dropWhile_toUpperCase:
  "dropWhile isSpace (toUpperCase s) = toUpperCase (dropWhile isSpace s)"
proof (induction s)
  case Nil
  then show ?case by (simp add: toUpperCase_Nil)
next
  case (Cons c s)
  show ?case
  proof (cases "isSpace c")
    case True
    then show ?thesis using Cons by (simp add: toUpperCase_Cons upperOf_space)
  next
    case False
    then have "\<not> isSpace (hd (upperOf c))" by (simp add: upperOf_hd_space)
    then have "dropWhile isSpace (upperOf c @ toUpperCase s) = upperOf c @ toUpperCase s"
      using upperOf_nonempty [of c] by (cases "upperOf c") auto
    then show ?thesis using False by (simp add: toUpperCase_Cons)
  qed
qed

lemma trim_toUpperCase: "trim (toUpperCase s) = toUpperCase (trim s)"
  by (simp add: trim_def dropWhile_toUpperCase trimEnd_toUpperCase)

lemma firstToken_toUpperCase: "firstToken (toUpperCase s) = toUpperCase (firstToken s)"
proof (induction s)
  case Nil
  then show ?case by (simp add: toUpperCase_Nil firstToken_def)
next
  case (Cons c s)
  show ?case
  proof (cases "isSpace c")
    case True
    then show ?thesis by (simp add: toUpperCase_Cons upperOf_space firstToken_def toUpperCase_Nil)
  next
    case False
    then have "\<forall>x \<in> set (upperOf c). \<not> isSpace x" using upperOf_no_space by blast
    then have "takeWhile (\<lambda>c. \<not> isSpace c) (upperOf c @ toUpperCase s) =
               upperOf c @ takeWhile (\<lambda>c. \<not> isSpace c) (toUpperCase s)"
      by simp
    then show ?thesis
      using Cons False by (simp add: toUpperCase_Cons firstToken_def)
  qed
qed

lemma trimEnd_idem: "trimEnd (trimEnd s) = trimEnd s"
  by (induction s) (auto simp: Let_def)

lemma trimEnd_hd: "trimEnd s = c # t \<Longrightarrow> \<exists>t'. s = c # t'"
  by (cases s) (auto simp: Let_def split: if_splits)

lemma dropWhile_trimEnd:
  "dropWhile isSpace (trimEnd (dropWhile isSpace s)) = trimEnd (dropWhile isSpace s)"
proof (cases "trimEnd (dropWhile isSpace s)")
  case Nil
  then show ?thesis by simp
next
  case (Cons c t)
  then obtain t' where "dropWhile isSpace s = c # t'"
    using trimEnd_hd by blast
  then have "\<not> isSpace c"
    by (metis hd_dropWhile list.sel(1) list.distinct(1))
  then show ?thesis using Cons by simp
qed

lemma trim_idem: "trim (trim s) = trim s"
  by (simp add: trim_def dropWhile_trimEnd trimEnd_idem)

text \<open>Trimming and upper-casing a text that is already trimmed and upper-cased changes nothing.\<close>

lemma normalise_idem: "toUpperCase (trim (toUpperCase (trim s))) = toUpperCase (trim s)"
proof -
  have "toUpperCase (trim (toUpperCase (trim s))) = toUpperCase (toUpperCase (trim (trim s)))"
    by (simp only: trim_toUpperCase)
  also have "\<dots> = toUpperCase (trim s)"
    by (simp add: trim_idem toUpperCase_idem)
  finally show ?thesis .
qed

section \<open>Properties of the matcher\<close>











text \<open>The texts of all matches, and the text with all matches replaced.\<close>

lemma matchAll_miss: "matchHere r (c # cs) = None \<Longrightarrow> matchAll r (c # cs) = matchAll r cs"
  by simp



lemma replaceAll_skip:
  assumes "\<And>x y. pre = y @ x \<Longrightarrow> x \<noteq> [] \<Longrightarrow> matchHere r (x @ s) = None"
  shows "replaceAll r repl (pre @ s) = pre @ replaceAll r repl s"
  using assms
proof (induction pre)
  case Nil
  then show ?case by simp
next
  case (Cons c pre)
  have "matchHere r ((c # pre) @ s) = None"
    using Cons.prems [of "[]" "c # pre"] by simp
  then have 1: "replaceAll r repl ((c # pre) @ s) = c # replaceAll r repl (pre @ s)" by simp
  have "\<And>x y. pre = y @ x \<Longrightarrow> x \<noteq> [] \<Longrightarrow> matchHere r (x @ s) = None"
    using Cons.prems by (metis append_Cons)
  from Cons.IH [OF this] have "replaceAll r repl (pre @ s) = pre @ replaceAll r repl s" .
  then show ?case using 1 by simp
qed

section \<open>The classifier\<close>

text \<open>
  The no-break space is white space, and the sharp s is written SS in upper case.
\<close>

lemma no_break_space_and_sharp_s:
  "trim (CHR 0xA0 # ''SELECT 1'' @ [CHR 0xA0]) = ''SELECT 1'' \<and>
   toUpperCase (sharpS # ''delete'') = ''SSDELETE'' \<and>
   analyzeQuery (CHR 0xA0 # ''SELECT 1'') =
     \<lparr>requiresConfirmation = False, operation = ''SELECT'', riskLevel = LOW,
      reason = ''Read-only SELECT operation''\<rparr>"
  by code_simp

lemma write_token_classified:
  assumes "firstToken (toUpperCase (trim sql)) = k" and "k \<in> set WRITE_OPERATIONS"
  shows "requiresConfirmation (analyzeQuery sql) \<and> operation (analyzeQuery sql) = k \<and>
         riskLevel (analyzeQuery sql) =
           (if k \<in> {''DELETE'', ''DROP'', ''TRUNCATE'', ''ALTER''} then HIGH
            else if k = ''INSERT'' then LOW else MEDIUM)"
proof -
  have "startsWith (toUpperCase (trim sql)) k"
    using assms(1) startsWith_firstToken by metis
  then have w: "list_ex (startsWith (toUpperCase (trim sql))) WRITE_OPERATIONS"
    using assms(2) by (auto simp: list_ex_iff)
  show ?thesis
    using assms w by (auto simp: analyzeQuery_def Let_def WRITE_OPERATIONS_def)
qed

lemma read_token_classified:
  assumes "firstToken (toUpperCase (trim sql)) = k" and "k \<in> set READ_OPERATIONS"
  shows "\<not> requiresConfirmation (analyzeQuery sql) \<and> operation (analyzeQuery sql) = k \<and>
         riskLevel (analyzeQuery sql) = LOW"
proof -
  have s: "startsWith (toUpperCase (trim sql)) k"
    using assms(1) startsWith_firstToken by metis
  then obtain r where r: "toUpperCase (trim sql) = k @ r"
    using startsWithD by blast
  have nw: "\<not> list_ex (startsWith (toUpperCase (trim sql))) WRITE_OPERATIONS"
    using assms(2) unfolding r by (auto simp: WRITE_OPERATIONS_def READ_OPERATIONS_def)
  have rd: "list_ex (startsWith (toUpperCase (trim sql))) READ_OPERATIONS"
    using assms(2) s by (auto simp: list_ex_iff)
  show ?thesis
    using assms nw rd by (simp add: analyzeQuery_def Let_def)
qed

text \<open>
  A text that starts with a write keyword, whatever its first token is, requires
  confirmation; the risk level is decided by the first token alone.
\<close>

lemma write_prefix_classified:
  assumes "list_ex (startsWith (toUpperCase (trim sql))) WRITE_OPERATIONS"
  shows "requiresConfirmation (analyzeQuery sql) \<and>
         riskLevel (analyzeQuery sql) =
           (if firstToken (toUpperCase (trim sql)) \<in> {''DELETE'', ''DROP'', ''TRUNCATE'', ''ALTER''}
            then HIGH
            else if firstToken (toUpperCase (trim sql)) = ''INSERT'' then LOW else MEDIUM)"
  using assms by (auto simp: analyzeQuery_def Let_def)

lemma read_prefix_classified:
  assumes "\<not> list_ex (startsWith (toUpperCase (trim sql))) WRITE_OPERATIONS"
    and "list_ex (startsWith (toUpperCase (trim sql))) READ_OPERATIONS"
  shows "\<not> requiresConfirmation (analyzeQuery sql) \<and> riskLevel (analyzeQuery sql) = LOW"
  using assms by (simp add: analyzeQuery_def Let_def)

lemma unknown_prefix_classified:
  assumes "\<not> list_ex (startsWith (toUpperCase (trim sql))) (WRITE_OPERATIONS @ READ_OPERATIONS)"
  shows "requiresConfirmation (analyzeQuery sql) \<and> riskLevel (analyzeQuery sql) = HIGH"
  using assms by (simp add: analyzeQuery_def Let_def)

text \<open>
  C5 (as amended). With \<open>k\<close> the first white-space-delimited token of the trimmed,
  upper-cased statement: \<open>k\<close> = DELETE, DROP, TRUNCATE or ALTER gives HIGH, UPDATE gives
  MEDIUM, INSERT gives LOW, each with confirmation required; \<open>k\<close> a read keyword gives LOW
  with no confirmation. Keywords are recognized as prefixes of the trimmed, upper-cased
  text, write keywords first. A text that starts with a write keyword and whose first
  token is none of these six (CREATE, MERGE, BULK, EXEC, EXECUTE, but also a token that
  merely starts with a write keyword, such as DELETEX) is MEDIUM with confirmation
  required; a text that starts with a read keyword and with no write keyword (also
  SELECTX) is LOW with no confirmation; a text that starts with none of the write or
  read keywords is HIGH with confirmation required.
\<close>

theorem C5_risk_table:
  assumes "firstToken (toUpperCase (trim sql)) = k"
  shows "(k \<in> {''DELETE'', ''DROP'', ''TRUNCATE'', ''ALTER''} \<longrightarrow>
            riskLevel (analyzeQuery sql) = HIGH \<and> requiresConfirmation (analyzeQuery sql)) \<and>
         (k = ''UPDATE'' \<longrightarrow>
            riskLevel (analyzeQuery sql) = MEDIUM \<and> requiresConfirmation (analyzeQuery sql)) \<and>
         (k = ''INSERT'' \<longrightarrow>
            riskLevel (analyzeQuery sql) = LOW \<and> requiresConfirmation (analyzeQuery sql)) \<and>
         (k \<in> set READ_OPERATIONS \<longrightarrow>
            riskLevel (analyzeQuery sql) = LOW \<and> \<not> requiresConfirmation (analyzeQuery sql)) \<and>
         (list_ex (startsWith (toUpperCase (trim sql))) WRITE_OPERATIONS \<and>
          k \<notin> {''DELETE'', ''DROP'', ''TRUNCATE'', ''ALTER'', ''UPDATE'', ''INSERT''} \<longrightarrow>
            riskLevel (analyzeQuery sql) = MEDIUM \<and> requiresConfirmation (analyzeQuery sql)) \<and>
         (\<not> list_ex (startsWith (toUpperCase (trim sql))) WRITE_OPERATIONS \<and>
          list_ex (startsWith (toUpperCase (trim sql))) READ_OPERATIONS \<longrightarrow>
            riskLevel (analyzeQuery sql) = LOW \<and> \<not> requiresConfirmation (analyzeQuery sql)) \<and>
         (\<not> list_ex (startsWith (toUpperCase (trim sql))) (WRITE_OPERATIONS @ READ_OPERATIONS) \<longrightarrow>
            riskLevel (analyzeQuery sql) = HIGH \<and> requiresConfirmation (analyzeQuery sql))"
proof (intro conjI impI)
  assume k: "k \<in> {''DELETE'', ''DROP'', ''TRUNCATE'', ''ALTER''}"
  then have "k \<in> set WRITE_OPERATIONS" by (auto simp: WRITE_OPERATIONS_def)
  from write_token_classified [OF assms this] k
  show "riskLevel (analyzeQuery sql) = HIGH" and "requiresConfirmation (analyzeQuery sql)"
    by simp_all
next
  assume k: "k = ''UPDATE''"
  then have "k \<in> set WRITE_OPERATIONS" by (simp add: WRITE_OPERATIONS_def)
  from write_token_classified [OF assms this] k
  show "riskLevel (analyzeQuery sql) = MEDIUM" and "requiresConfirmation (analyzeQuery sql)"
    by simp_all
next
  assume k: "k = ''INSERT''"
  then have "k \<in> set WRITE_OPERATIONS" by (simp add: WRITE_OPERATIONS_def)
  from write_token_classified [OF assms this] k
  show "riskLevel (analyzeQuery sql) = LOW" and "requiresConfirmation (analyzeQuery sql)"
    by simp_all
next
  assume "k \<in> set READ_OPERATIONS"
  from read_token_classified [OF assms this]
  show "riskLevel (analyzeQuery sql) = LOW" and "\<not> requiresConfirmation (analyzeQuery sql)"
    by simp_all
next
  assume a: "list_ex (startsWith (toUpperCase (trim sql))) WRITE_OPERATIONS \<and>
          k \<notin> {''DELETE'', ''DROP'', ''TRUNCATE'', ''ALTER'', ''UPDATE'', ''INSERT''}"
  then have w: "list_ex (startsWith (toUpperCase (trim sql))) WRITE_OPERATIONS" by simp
  from write_prefix_classified [OF w] a assms
  show "riskLevel (analyzeQuery sql) = MEDIUM" and "requiresConfirmation (analyzeQuery sql)"
    by simp_all
next
  assume a: "\<not> list_ex (startsWith (toUpperCase (trim sql))) WRITE_OPERATIONS \<and>
          list_ex (startsWith (toUpperCase (trim sql))) READ_OPERATIONS"
  then have "\<not> list_ex (startsWith (toUpperCase (trim sql))) WRITE_OPERATIONS"
    and "list_ex (startsWith (toUpperCase (trim sql))) READ_OPERATIONS" by simp_all
  from read_prefix_classified [OF this]
  show "riskLevel (analyzeQuery sql) = LOW" and "\<not> requiresConfirmation (analyzeQuery sql)"
    by simp_all
next
  assume "\<not> list_ex (startsWith (toUpperCase (trim sql))) (WRITE_OPERATIONS @ READ_OPERATIONS)"
  from unknown_prefix_classified [OF this]
  show "riskLevel (analyzeQuery sql) = HIGH" and "requiresConfirmation (analyzeQuery sql)"
    by simp_all
qed

theorem C5_risk_table_witness:
  "riskLevel (analyzeQuery ''DELETE FROM tt'') = HIGH \<and>
   requiresConfirmation (analyzeQuery ''DELETE FROM tt'') \<and>
   riskLevel (analyzeQuery ''update tt set a = 1'') = MEDIUM \<and>
   requiresConfirmation (analyzeQuery ''update tt set a = 1'') \<and>
   riskLevel (analyzeQuery ''INSERT INTO tt VALUES (1)'') = LOW \<and>
   requiresConfirmation (analyzeQuery ''INSERT INTO tt VALUES (1)'') \<and>
   riskLevel (analyzeQuery (CHR 0xA0 # ''select 1'')) = LOW \<and>
   \<not> requiresConfirmation (analyzeQuery (CHR 0xA0 # ''select 1'')) \<and>
   riskLevel (analyzeQuery ''DELETEX FROM tt'') = MEDIUM \<and>
   requiresConfirmation (analyzeQuery ''DELETEX FROM tt'') \<and>
   riskLevel (analyzeQuery ''SELECTX 1'') = LOW \<and>
   \<not> requiresConfirmation (analyzeQuery ''SELECTX 1'') \<and>
   riskLevel (analyzeQuery ''GRANT ALL TO bob'') = HIGH \<and>
   requiresConfirmation (analyzeQuery ''GRANT ALL TO bob'')"
proof -
  have k1: "firstToken (toUpperCase (trim ''DELETE FROM tt'')) = ''DELETE''" by code_simp
  have k2: "firstToken (toUpperCase (trim ''update tt set a = 1'')) = ''UPDATE''" by code_simp
  have k3: "firstToken (toUpperCase (trim ''INSERT INTO tt VALUES (1)'')) = ''INSERT''"
    by code_simp
  have k4: "firstToken (toUpperCase (trim (CHR 0xA0 # ''select 1''))) = ''SELECT''" by code_simp
  have k5: "firstToken (toUpperCase (trim ''DELETEX FROM tt'')) = ''DELETEX''" by code_simp
  have w5: "list_ex (startsWith (toUpperCase (trim ''DELETEX FROM tt''))) WRITE_OPERATIONS"
    by code_simp
  have w6: "\<not> list_ex (startsWith (toUpperCase (trim ''SELECTX 1''))) WRITE_OPERATIONS"
    by code_simp
  have r6: "list_ex (startsWith (toUpperCase (trim ''SELECTX 1''))) READ_OPERATIONS"
    by code_simp
  have u7: "\<not> list_ex (startsWith (toUpperCase (trim ''GRANT ALL TO bob'')))
              (WRITE_OPERATIONS @ READ_OPERATIONS)" by code_simp
  have r4: "''SELECT'' \<in> set READ_OPERATIONS" by code_simp
  have m1: "''DELETE'' \<in> {''DELETE'', ''DROP'', ''TRUNCATE'', ''ALTER''}" by simp
  have n5: "list_ex (startsWith (toUpperCase (trim ''DELETEX FROM tt''))) WRITE_OPERATIONS \<and>
            ''DELETEX'' \<notin> {''DELETE'', ''DROP'', ''TRUNCATE'', ''ALTER'', ''UPDATE'', ''INSERT''}"
    using w5 by simp
  note a1 = C5_risk_table [OF k1, THEN conjunct1, rule_format, OF m1]
  note a2 = C5_risk_table [OF k2, THEN conjunct2, THEN conjunct1, rule_format, OF refl]
  note a3 = C5_risk_table [OF k3, THEN conjunct2, THEN conjunct2, THEN conjunct1, rule_format, OF refl]
  note a4 = C5_risk_table [OF k4, THEN conjunct2, THEN conjunct2, THEN conjunct2, THEN conjunct1, rule_format, OF r4]
  note a5 = C5_risk_table [OF k5, THEN conjunct2, THEN conjunct2, THEN conjunct2, THEN conjunct2, THEN conjunct1, rule_format, OF n5]
  note a6 = C5_risk_table [OF refl, of "''SELECTX 1''", THEN conjunct2, THEN conjunct2, THEN conjunct2, THEN conjunct2, THEN conjunct2, THEN conjunct1, rule_format, OF conjI [OF w6 r6]]
  note a7 = C5_risk_table [OF refl, of "''GRANT ALL TO bob''", THEN conjunct2, THEN conjunct2, THEN conjunct2, THEN conjunct2, THEN conjunct2, THEN conjunct2, rule_format, OF u7]
  show ?thesis
    by (intro conjI) (rule a1 [THEN conjunct1] a1 [THEN conjunct2] a2 [THEN conjunct1]
      a2 [THEN conjunct2] a3 [THEN conjunct1] a3 [THEN conjunct2] a4 [THEN conjunct1]
      a4 [THEN conjunct2] a5 [THEN conjunct1] a5 [THEN conjunct2] a6 [THEN conjunct1]
      a6 [THEN conjunct2] a7 [THEN conjunct1] a7 [THEN conjunct2])+
qed

text \<open>
  The claim as stated fails for a leading token that is no keyword but starts with one:
  SELECTX is classified as a read.
\<close>

theorem C5_unrecognized_token_counterexample:
  "firstToken (toUpperCase (trim ''SELECTX 1'')) = ''SELECTX'' \<and>
   ''SELECTX'' \<notin> set (WRITE_OPERATIONS @ READ_OPERATIONS) \<and>
   \<not> requiresConfirmation (analyzeQuery ''SELECTX 1'') \<and>
   riskLevel (analyzeQuery ''SELECTX 1'') = LOW"
  by code_simp

lemma comment_marker_unknown:
  assumes "\<not> isSpace a" and "upperOf a = [a]" and "upperOf b = [b]"
    and "\<not> list_ex (\<lambda>op. hd op = a) (WRITE_OPERATIONS @ READ_OPERATIONS)"
  shows "requiresConfirmation (analyzeQuery (a # b # rest)) \<and>
         riskLevel (analyzeQuery (a # b # rest)) = HIGH"
proof -
  have "dropWhile isSpace (a # b # rest) = a # b # rest"
    using assms(1) by simp
  moreover have "\<exists>t. trimEnd (a # b # rest) = a # t"
    using assms(1) by (simp add: Let_def)
  ultimately obtain t where "trim (a # b # rest) = a # t"
    by (auto simp: trim_def)
  then have "toUpperCase (trim (a # b # rest)) = a # toUpperCase t"
    using assms(2) by (simp add: toUpperCase_Cons)
  then have "\<not> list_ex (startsWith (toUpperCase (trim (a # b # rest))))
                 (WRITE_OPERATIONS @ READ_OPERATIONS)"
    using assms(4) by (auto simp: WRITE_OPERATIONS_def READ_OPERATIONS_def)
  then show ?thesis by (rule unknown_prefix_classified)
qed

text \<open>
  C6 (as amended). \<open>analyzeQuery\<close> trims and upper-cases the statement and nothing else:
  its result is the result for the trimmed, upper-cased text. It strips no comment, so
  a statement that starts with a comment marker is classified as an unknown operation,
  HIGH with confirmation required, whatever follows the marker.
\<close>

theorem C6_comments_not_stripped:
  "analyzeQuery (toUpperCase (trim sql)) = analyzeQuery sql \<and>
   requiresConfirmation (analyzeQuery (''--'' @ rest)) \<and>
   riskLevel (analyzeQuery (''--'' @ rest)) = HIGH \<and>
   requiresConfirmation (analyzeQuery (''/*'' @ rest)) \<and>
   riskLevel (analyzeQuery (''/*'' @ rest)) = HIGH"
proof -
  have "analyzeQuery (toUpperCase (trim sql)) = analyzeQuery sql"
    by (simp add: analyzeQuery_def normalise_idem)
  moreover have "requiresConfirmation (analyzeQuery (''--'' @ rest)) \<and>
      riskLevel (analyzeQuery (''--'' @ rest)) = HIGH"
  proof -
    have "\<not> isSpace CHR ''-''" and "upperOf CHR ''-'' = ''-''"
      and "\<not> list_ex (\<lambda>op. hd op = CHR ''-'') (WRITE_OPERATIONS @ READ_OPERATIONS)"
      by code_simp+
    from comment_marker_unknown [OF this(1) this(2) this(2) this(3)] show ?thesis by simp
  qed
  moreover have "requiresConfirmation (analyzeQuery (''/*'' @ rest)) \<and>
      riskLevel (analyzeQuery (''/*'' @ rest)) = HIGH"
  proof -
    have "\<not> isSpace CHR ''/''" and "upperOf CHR ''/'' = ''/''" and "upperOf CHR ''*'' = ''*''"
      and "\<not> list_ex (\<lambda>op. hd op = CHR ''/'') (WRITE_OPERATIONS @ READ_OPERATIONS)"
      by code_simp+
    from comment_marker_unknown [OF this] show ?thesis by simp
  qed
  ultimately show ?thesis by simp
qed

theorem C6_comments_not_stripped_witness:
  "analyzeQuery (toUpperCase (trim ''  select 1 '')) = analyzeQuery ''  select 1 '' \<and>
   requiresConfirmation (analyzeQuery ''-- note'') \<and>
   riskLevel (analyzeQuery ''-- note'') = HIGH \<and>
   requiresConfirmation (analyzeQuery ''/* note */ SELECT 1'') \<and>
   riskLevel (analyzeQuery ''/* note */ SELECT 1'') = HIGH"
  using C6_comments_not_stripped [of "''  select 1 ''" "'' note''"]
    C6_comments_not_stripped [of "''  select 1 ''" "'' note */ SELECT 1''"]
  by simp

text \<open>
  The claim as stated fails: a block comment in front of a SELECT turns a read that needs
  no confirmation into an unknown operation of HIGH risk.
\<close>

theorem C6_prepended_comment_counterexample:
  "analyzeQuery ''SELECT 1'' =
     \<lparr>requiresConfirmation = False, operation = ''SELECT'', riskLevel = LOW,
      reason = ''Read-only SELECT operation''\<rparr> \<and>
   analyzeQuery ''/* note */ SELECT 1'' =
     \<lparr>requiresConfirmation = True, operation = ''/*'', riskLevel = HIGH,
      reason = ''Unknown SQL operation - requires confirmation for safety''\<rparr>"
  by code_simp

section \<open>The pending operation store\<close>

lemma cleanupExpiredTokens_entry:
  "pendingOperations (cleanupExpiredTokens w) t =
     (case pendingOperations w t of
        None \<Rightarrow> None
      | Some entry \<Rightarrow>
          if clock w (clock_reads w) - po_timestamp entry > 5 * 60 * 1000 then None
          else Some entry)"
  by (simp add: cleanupExpiredTokens_def newDate_def maxAge_def split: option.splits)

text \<open>
  An entry is stored with the time of the first clock reading of the call and survives
  the sweep of its own insertion unless the clock jumps by more than five minutes
  between the two readings.
\<close>

lemma storePendingOperation_entry:
  assumes "clock w (Suc (clock_reads w)) - clock w (clock_reads w) \<le> 5 * 60 * 1000"
  shows "pendingOperations (storePendingOperation t request w) t =
           Some \<lparr>po_request = request, po_timestamp = clock w (clock_reads w)\<rparr>"
  using assms
  by (simp add: storePendingOperation_def cleanupExpiredTokens_def newDate_def maxAge_def Let_def)

lemma getPendingOperation_hit:
  assumes "pendingOperations w t = Some p"
    and "clock w (clock_reads w) - po_timestamp p \<le> 5 * 60 * 1000"
  shows "getPendingOperation t w = (Some p, w\<lparr>clock_reads := Suc (clock_reads w)\<rparr>)"
  using assms by (simp add: getPendingOperation_def newDate_def maxAge_def)

lemma getPendingOperation_miss:
  "pendingOperations w t = None \<Longrightarrow> getPendingOperation t w = (None, w)"
  by (simp add: getPendingOperation_def)

text \<open>
  C4. For an entry \<open>p\<close> stored under the token \<open>t\<close> with creation time \<open>c\<close>, a lookup
  whose clock reading is \<open>now\<close> returns \<open>p\<close> if and only if \<open>now - c\<close> is at most five
  minutes (in milliseconds) and then leaves the map as it is; when \<open>now - c\<close> exceeds
  five minutes the lookup returns nothing and deletes the entry, although the entry was
  still in the map.
\<close>

theorem C4_lookup_within_ttl:
  assumes "pendingOperations w t = Some p"
    and "po_timestamp p = c"
    and "clock w (clock_reads w) = now"
  shows "(fst (getPendingOperation t w) = Some p) = (now - c \<le> 5 * 60 * 1000) \<and>
         (now - c \<le> 5 * 60 * 1000 \<longrightarrow>
            pendingOperations (snd (getPendingOperation t w)) = pendingOperations w) \<and>
         (now - c > 5 * 60 * 1000 \<longrightarrow>
            fst (getPendingOperation t w) = None \<and>
            pendingOperations (snd (getPendingOperation t w)) = (pendingOperations w)(t := None))"
  using assms by (simp add: getPendingOperation_def newDate_def maxAge_def Let_def)

theorem C4_lookup_within_ttl_witness:
  "pendingOperations (atTime 300002 (proposedDelete alwaysOk)) exampleToken = Some pendingDelete \<and>
   fst (getPendingOperation exampleToken (atTime 300002 (proposedDelete alwaysOk))) =
     Some pendingDelete \<and>
   pendingOperations (atTime 300003 (proposedDelete alwaysOk)) exampleToken = Some pendingDelete \<and>
   fst (getPendingOperation exampleToken (atTime 300003 (proposedDelete alwaysOk))) = None \<and>
   pendingOperations (snd (getPendingOperation exampleToken (atTime 300003 (proposedDelete alwaysOk))))
     exampleToken = None"
proof -
  have s1: "pendingOperations (atTime 300002 (proposedDelete alwaysOk)) exampleToken =
              Some pendingDelete" by code_simp
  have s2: "pendingOperations (atTime 300003 (proposedDelete alwaysOk)) exampleToken =
              Some pendingDelete" by code_simp
  have c: "po_timestamp pendingDelete = 2" by (simp add: pendingDelete_def)
  have n1: "clock (atTime 300002 (proposedDelete alwaysOk))
              (clock_reads (atTime 300002 (proposedDelete alwaysOk))) = 300002"
    by (simp add: atTime_def)
  have n2: "clock (atTime 300003 (proposedDelete alwaysOk))
              (clock_reads (atTime 300003 (proposedDelete alwaysOk))) = 300003"
    by (simp add: atTime_def)
  show ?thesis
    using C4_lookup_within_ttl [OF s1 c n1] C4_lookup_within_ttl [OF s2 c n2] s1 s2
    by simp
qed

section \<open>The impact estimator\<close>









text \<open>
  An alternative of literals of which exactly one starts the text: that literal is
  consumed, whatever the continuation answers.
\<close>

lemma alts_none:
  "\<forall>K \<in> set Ks. \<not> startsWithI s K \<Longrightarrow> rmatch (alts (map LitI Ks)) s g k = None"
  by (induction Ks rule: induct_list012) (auto split: list.splits)


lemma clauseKeywordRx_alts: "clauseKeywordRx = alts (map LitI clauseKeywords)"
  by (simp add: clauseKeywordRx_def clauseKeywords_def)


lemma clauseKeyword_miss:
  assumes "\<not> list_ex (startsWithI s) clauseKeywords"
  shows "rmatch clauseKeywordRx s g k = None"
  using assms unfolding clauseKeywordRx_alts by (intro alts_none) (simp add: list_ex_iff)






















text \<open>\<open>estimateImpact\<close> changes nothing of the state but the trace of database requests.\<close>

lemma estimateImpact_world:
  "snd (estimateImpact sql w) = w\<lparr>db_calls := db_calls w @ estimatorRequests sql\<rparr>"
  unfolding estimateImpact_def estimatorRequests_def Let_def db_request_def
  by (auto split: sum.splits option.splits)

text \<open>
  When the count query fails, the estimate is 0 rows with a warning and the tables that
  were extracted from the text.
\<close>

lemma estimateImpact_query_failed:
  assumes "estimatorRequests sql = [request]"
    and "db_respond w (db_calls w) request = Inl err"
  shows "fst (estimateImpact sql w) =
           \<lparr>estimatedRows = 0, affectedTables = extractTables sql,
            warning = Some ''Could not estimate the number of affected rows''\<rparr>"
  using assms
  by (auto simp: estimateImpact_def estimatorRequests_def Let_def db_request_def
      split: if_splits)



text \<open>
  C8 (the code breaks the claim). The trimmed text of a DELETE with a space in front
  starts with DELETE, but the rewrite \<^verbatim>\<open>/^DELETE\s+/i\<close> is applied to the untrimmed
  statement, matches nothing and leaves it as it is: the "count query" that
  \<open>estimateImpact\<close> sends is the DELETE itself. Through \<open>mcp_execute_query\<close> the DELETE
  reaches the database while the proposal is still awaiting confirmation, and the
  confirmation sends it twice more: once to execute it and once for the estimate that
  is written to the audit log.
\<close>

theorem C8_estimate_sends_the_delete:
  "countQueryOf '' DELETE FROM tt'' = '' DELETE FROM tt'' \<and>
   db_calls (snd (estimateImpact '' DELETE FROM tt'' (exampleWorld alwaysOk))) =
     [Query '' DELETE FROM tt''] \<and>
   db_calls (snd (mcp_execute_query '' DELETE FROM tt'' (exampleWorld alwaysOk))) =
     [Query '' DELETE FROM tt''] \<and>
   fst (mcp_execute_query '' DELETE FROM tt'' (exampleWorld alwaysOk)) =
     ToolError (ConfirmationRequired
       \<lparr>requiresConfirmation = True, operation = ''DELETE'', riskLevel = HIGH,
        reason = ''High-risk DELETE operation that can permanently remove data''\<rparr>
       \<lparr>estimatedRows = 1, affectedTables = [''tt''], warning = None\<rparr>
       ''CONF_1_K3X9Q2'') \<and>
   db_calls (snd (mcp_confirm_and_execute ''CONF_1_K3X9Q2''
                    (snd (mcp_execute_query '' DELETE FROM tt'' (exampleWorld alwaysOk))))) =
     [Query '' DELETE FROM tt'', Query '' DELETE FROM tt'', Query '' DELETE FROM tt'']"
  by code_simp

section \<open>The tools guarded by the feature flags\<close>



































lemma containsModificationOperations_nonempty:
  "containsModificationOperations query \<Longrightarrow> query \<noteq> []"
  by (auto simp: containsModificationOperations_def)

lemma modification_message:
  "\<not> ALLOW_MODIFICATIONS cfg \<Longrightarrow>
   \<exists>a b. message (validateModificationPermission cfg requested) =
            Some (a @ ''DB_ALLOW_MODIFICATIONS=true'' @ b) \<and>
          \<not> allowed (validateModificationPermission cfg requested)"
  apply (rule exI [of _ "''[X] OPERATION BLOCKED: Database modifications are disabled for security.'' @ nl @
           nl @ ''[*] REQUESTED OPERATION: '' @ requested @ nl @ nl @
           ''[+] TO ENABLE MODIFICATIONS:'' @ nl @ ''Configure the environment variable: ''"])
  apply (rule exI [of _ "nl @ nl @
           ''[!] WARNING: Only enable modifications if you are sure it is safe to do so.'' @ nl @
           ''In production environments, keep this setting as '' @ [CHR 0x27] @ ''false'' @ [CHR 0x27] @
           '' to prevent accidental changes.'' @ nl @ nl @
           ''[#] CURRENT CONFIGURATION:'' @ nl @
           ''- DB_ALLOW_MODIFICATIONS: '' @ showBool (ALLOW_MODIFICATIONS cfg) @ nl @
           ''- DB_ALLOW_STORED_PROCEDURES: '' @ showBool (ALLOW_STORED_PROCEDURES cfg)"])
  apply (simp add: validateModificationPermission_def)
  done

lemma procedure_message:
  "\<not> ALLOW_STORED_PROCEDURES cfg \<Longrightarrow>
   \<exists>a b. message (validateStoredProcedurePermission cfg spName) =
            Some (a @ ''DB_ALLOW_STORED_PROCEDURES=true'' @ b) \<and>
          \<not> allowed (validateStoredProcedurePermission cfg spName)"
  apply (rule exI [of _ "''[X] EXECUTION BLOCKED: Stored procedure execution is disabled for security.'' @ nl @
           nl @ ''[*] REQUESTED STORED PROCEDURE: '' @ spName @ nl @ nl @
           ''[+] TO ENABLE STORED PROCEDURES:'' @ nl @ ''Configure the environment variable: ''"])
  apply (rule exI [of _ "nl @ nl @
           ''[!] WARNING: Stored procedures can perform database modifications.'' @ nl @
           ''Only enable this function if you are sure it is safe to do so.'' @ nl @
           nl @
           ''[#] CURRENT CONFIGURATION:'' @ nl @
           ''- DB_ALLOW_MODIFICATIONS: '' @ showBool (ALLOW_MODIFICATIONS cfg) @ nl @
           ''- DB_ALLOW_STORED_PROCEDURES: '' @ showBool (ALLOW_STORED_PROCEDURES cfg) @ nl @
           nl @
           ''[i] SAFE ALTERNATIVE:'' @ nl @
           ''You can use '' @ [CHR 0x27] @ ''mcp_sp_structure'' @ [CHR 0x27] @
           '' to analyze the stored procedure without executing it.''"])
  apply (simp add: validateStoredProcedurePermission_def)
  done

text \<open>A proposal that the flags refuse leaves the whole state as it is.\<close>

lemma flagged_query_blocked:
  assumes "\<not> ALLOW_MODIFICATIONS cfg" and "containsModificationOperations query"
  shows "\<exists>a b. mcp_execute_query_flagged cfg query w =
            (ToolError (ErrorText (a @ ''DB_ALLOW_MODIFICATIONS=true'' @ b)), w)"
proof -
  have ne: "query \<noteq> []"
    using assms(2) containsModificationOperations_nonempty by blast
  obtain a b where
    m: "message (validateModificationPermission cfg (''SQL Query: '' @ take 100 query @ ''...'')) =
          Some (a @ ''DB_ALLOW_MODIFICATIONS=true'' @ b)"
    and na: "\<not> allowed (validateModificationPermission cfg (''SQL Query: '' @ take 100 query @ ''...''))"
    using modification_message assms(1) by blast
  have "mcp_execute_query_flagged cfg query w =
          (ToolError (ErrorText (a @ ''DB_ALLOW_MODIFICATIONS=true'' @ b)), w)"
    using assms ne m na
    by (simp add: mcp_execute_query_flagged_def validateQueryPermission_def orElse_def)
  then show ?thesis by blast
qed

lemma flagged_procedure_blocked:
  assumes "\<not> ALLOW_STORED_PROCEDURES cfg"
  shows "\<exists>a b. mcp_execute_procedure_flagged cfg sp_name ps w =
            (ToolError (ErrorText (a @ ''DB_ALLOW_STORED_PROCEDURES=true'' @ b)), w)"
proof -
  obtain a b where
    m: "message (validateStoredProcedurePermission cfg sp_name) =
          Some (a @ ''DB_ALLOW_STORED_PROCEDURES=true'' @ b)"
    and na: "\<not> allowed (validateStoredProcedurePermission cfg sp_name)"
    using procedure_message assms by blast
  have "mcp_execute_procedure_flagged cfg sp_name ps w =
          (ToolError (ErrorText (a @ ''DB_ALLOW_STORED_PROCEDURES=true'' @ b)), w)"
    using assms m na
    by (simp add: mcp_execute_procedure_flagged_def orElse_def)
  then show ?thesis by blast
qed

text \<open>
  The check for modification keywords removes line comments before block comments. A
  line-comment marker inside a block comment therefore removes the end of the block
  comment and everything after it, the keyword included, and the statement passes the
  flag although the database reads it as a DELETE. A block comment right after the
  keyword is removed without a space in its place, and a sharp s right before the
  keyword becomes SS: in both cases the keyword is joined to word characters and is not
  found.
\<close>

lemma flag_gate_misses_keyword_after_comment:
  "\<not> containsModificationOperations ''/* -- */ DELETE FROM tt'' \<and>
   db_calls (snd (mcp_execute_query_flagged flagsOff ''/* -- */ DELETE FROM tt''
                    (exampleWorld alwaysOk))) =
     [Query ''/* -- */ DELETE FROM tt'']"
  by code_simp

lemma flag_gate_misses_joined_keyword:
  "\<not> containsModificationOperations ''DELETE/**/FROM tt'' \<and>
   db_calls (snd (mcp_execute_query_flagged flagsOff ''DELETE/**/FROM tt''
                    (exampleWorld alwaysOk))) =
     [Query ''DELETE/**/FROM tt''] \<and>
   \<not> containsModificationOperations (sharpS # ''delete from tt'') \<and>
   db_calls (snd (mcp_execute_query_flagged flagsOff (sharpS # ''delete from tt'')
                    (exampleWorld alwaysOk))) =
     [Query (sharpS # ''delete from tt'')]"
  by code_simp




section \<open>The tools guarded by confirmation tokens\<close>

lemma confirm_miss:
  "pendingOperations w t = None \<Longrightarrow>
   mcp_confirm_and_execute t w = (ToolError (ErrorText invalidTokenMessage), w)"
  by (simp add: mcp_confirm_and_execute_def getPendingOperation_miss)

text \<open>A confirmation that finds its token and whose request the database executes.\<close>

lemma confirm_hit_success:
  assumes stored: "pendingOperations w t = Some p"
    and ttl: "clock w (clock_reads w) - po_timestamp p \<le> 5 * 60 * 1000"
    and pool: "pool_connected w"
    and ok: "db_respond w (db_calls w) (storedCall (po_request p)) = Inr result"
  shows "fst (mcp_confirm_and_execute t w) =
           ToolSuccess (ExecutionReport (case rowsAffected result of [] \<Rightarrow> 0 | n # ns \<Rightarrow> n)
                                        (case recordset result of None \<Rightarrow> [] | Some rows \<Rightarrow> rows))"
    and "db_calls (snd (mcp_confirm_and_execute t w)) =
           db_calls w @ storedCall (po_request p) # estimatorRequests (op_sql (po_request p))"
    and "pendingOperations (snd (mcp_confirm_and_execute t w)) = (pendingOperations w)(t := None)"
    and "audit_writable w \<Longrightarrow>
         \<exists>e. audit_log (snd (mcp_confirm_and_execute t w)) = audit_log w @ [e] \<and>
             ae_userConfirmed e \<and> ae_result e = Some SUCCESS"
  using pool ok
  by (simp_all add: mcp_confirm_and_execute_def getPendingOperation_hit [OF stored ttl]
      getPool_def db_request_def Let_def newDate_def removePendingOperation_def
      case_prod_beta estimateImpact_world logSecurityEvent_def)

text \<open>A confirmation that finds its token and fails: no pool, or the database throws.\<close>

lemma confirm_hit_failure:
  assumes stored: "pendingOperations w t = Some p"
    and ttl: "clock w (clock_reads w) - po_timestamp p \<le> 5 * 60 * 1000"
    and bad: "\<not> pool_connected w \<or> db_respond w (db_calls w) (storedCall (po_request p)) = Inl err"
  shows "\<exists>msg. fst (mcp_confirm_and_execute t w) = ToolError (ErrorText msg)"
    and "pendingOperations (snd (mcp_confirm_and_execute t w)) = pendingOperations w"
    and "audit_writable w \<Longrightarrow>
         \<exists>e. audit_log (snd (mcp_confirm_and_execute t w)) = audit_log w @ [e] \<and>
             ae_userConfirmed e \<and> ae_result e = Some FAILED"
  using bad
  by (auto simp add: mcp_confirm_and_execute_def getPendingOperation_hit [OF stored ttl]
      getPool_def db_request_def Let_def newDate_def confirmFailed_def logSecurityEvent_def)

text \<open>
  The estimator never sends the stored operation again, unless the operation is a DELETE
  whose text as stored does not start with DELETE and white space (the rewrite into a
  count query then leaves the statement as it is).
\<close>

lemma upper_S: "\<not> isSpace CHR ''S''" "upperOf CHR ''S'' = ''S''"
  "toUpperChar CHR ''S'' \<noteq> toUpperChar CHR ''D''"
  by code_simp+

lemma starts_with_S:
  assumes "sql = CHR ''S'' # r"
  shows "\<exists>t. toUpperCase (trim sql) = CHR ''S'' # t"
proof -
  have "dropWhile isSpace sql = sql" using assms upper_S(1) by simp
  moreover have "\<exists>t. trimEnd sql = CHR ''S'' # t"
    using assms upper_S(1) by (simp add: Let_def)
  ultimately obtain t where "trim sql = CHR ''S'' # t" by (auto simp: trim_def)
  then show ?thesis by (simp add: toUpperCase_Cons upper_S(2))
qed

lemma countQuery_differs:
  assumes "\<not> startsWith (toUpperCase (trim sql)) ''DELETE'' \<or> testAtStart deleteRx sql"
  shows "Query sql \<notin> set (estimatorRequests sql)"
proof (cases "startsWith (toUpperCase (trim sql)) ''DELETE''")
  case True
  then have "testAtStart deleteRx sql" using assms by blast
  then obtain rest g where m: "matchHere deleteRx sql = Some (rest, g)"
    by (auto simp: testAtStart_def)
  then have "startsWithI sql ''DELETE''"
    by (auto simp: matchHere_def deleteRx_def split: if_splits)
  then obtain c cs where "sql = c # cs" and "toUpperChar c = toUpperChar CHR ''D''"
    by (cases sql) auto
  then have "sql \<noteq> ''SELECT COUNT(*) AS estimated_rows '' @ rest"
    using upper_S(3) by auto
  then have "countQueryOf sql \<noteq> sql"
    using True m by (simp add: countQueryOf_def replaceAtStart_def)
  then show ?thesis by (auto simp: estimatorRequests_def Let_def)
next
  case False
  show ?thesis
  proof (cases "startsWith (toUpperCase (trim sql)) ''UPDATE''")
    case u: True
    have "countQueryOf sql \<noteq> sql \<or> countQueryOf sql = []"
    proof (cases "rxSearch updateRx sql")
      case None
      then show ?thesis using False u by (simp add: countQueryOf_def)
    next
      case (Some fromMatch)
      then obtain r where "countQueryOf sql = CHR ''S'' # r"
        using False u by (simp add: countQueryOf_def Let_def)
      moreover have "\<not> (\<exists>r. sql = CHR ''S'' # r)"
        using starts_with_S [of sql] u by auto
      ultimately show ?thesis by auto
    qed
    then show ?thesis by (auto simp: estimatorRequests_def Let_def)
  next
    case n: False
    then show ?thesis using False by (simp add: estimatorRequests_def)
  qed
qed

lemma stored_call_not_estimated:
  assumes "op_operation request = ''STORED_PROCEDURE'' \<or>
           \<not> startsWith (toUpperCase (trim (op_sql request))) ''DELETE'' \<or>
           testAtStart deleteRx (op_sql request)"
  shows "storedCall request \<notin> set (estimatorRequests (op_sql request))"
proof (cases "op_operation request = ''STORED_PROCEDURE''")
  case True
  then show ?thesis by (auto simp: storedCall_def estimatorRequests_def Let_def)
next
  case False
  then show ?thesis using assms countQuery_differs by (simp add: storedCall_def)
qed

text \<open>
  C2 (as amended). For a pending operation \<open>p\<close> stored under the token \<open>t\<close>, other than
  a DELETE statement whose text as stored does not start with DELETE and white space:
  when the first call of \<open>mcp_confirm_and_execute\<close> with \<open>t\<close> comes within the five
  minutes, finds the pool connected and the database executes the stored operation
  without an error, the call succeeds, sends the stored operation to the database
  exactly once, as its first request, and removes the token; a second call with \<open>t\<close>
  returns the invalid-or-expired-token error and leaves the state as it is, so it sends
  nothing to the database.
\<close>

theorem C2_confirm_once_then_expired:
  assumes stored: "pendingOperations w t = Some p"
    and ttl: "clock w (clock_reads w) - po_timestamp p \<le> 5 * 60 * 1000"
    and pool: "pool_connected w"
    and ok: "db_respond w (db_calls w) (storedCall (po_request p)) = Inr result"
    and plain: "op_operation (po_request p) = ''STORED_PROCEDURE'' \<or>
                \<not> startsWith (toUpperCase (trim (op_sql (po_request p)))) ''DELETE'' \<or>
                testAtStart deleteRx (op_sql (po_request p))"
  shows "(\<exists>report. fst (mcp_confirm_and_execute t w) = ToolSuccess report) \<and>
         (\<exists>later. db_calls (snd (mcp_confirm_and_execute t w)) =
                    db_calls w @ storedCall (po_request p) # later \<and>
                  storedCall (po_request p) \<notin> set later) \<and>
         count_list (drop (length (db_calls w)) (db_calls (snd (mcp_confirm_and_execute t w))))
           (storedCall (po_request p)) = 1 \<and>
         pendingOperations (snd (mcp_confirm_and_execute t w)) t = None \<and>
         mcp_confirm_and_execute t (snd (mcp_confirm_and_execute t w)) =
           (ToolError (ErrorText invalidTokenMessage), snd (mcp_confirm_and_execute t w))"
proof -
  note hit = confirm_hit_success [OF stored ttl pool ok]
  have gone: "pendingOperations (snd (mcp_confirm_and_execute t w)) t = None"
    using hit(3) by simp
  have no: "storedCall (po_request p) \<notin> set (estimatorRequests (op_sql (po_request p)))"
    using plain by (rule stored_call_not_estimated)
  have once: "count_list (drop (length (db_calls w)) (db_calls (snd (mcp_confirm_and_execute t w))))
                (storedCall (po_request p)) = 1"
    using no by (simp add: hit(2) count_list_0_iff)
  show ?thesis
    using hit(1) hit(2) no once gone confirm_miss [OF gone] by simp
qed

theorem C2_confirm_once_then_expired_witness:
  "pendingOperations (proposedDelete alwaysOk) exampleToken = Some pendingDelete \<and>
   pool_connected (proposedDelete alwaysOk) \<and>
   testAtStart deleteRx (op_sql (po_request pendingDelete)) \<and>
   (\<exists>report. fst (mcp_confirm_and_execute exampleToken (proposedDelete alwaysOk)) =
              ToolSuccess report) \<and>
   (\<exists>later. db_calls (snd (mcp_confirm_and_execute exampleToken (proposedDelete alwaysOk))) =
              db_calls (proposedDelete alwaysOk) @ Query ''DELETE FROM tt'' # later \<and>
            Query ''DELETE FROM tt'' \<notin> set later) \<and>
   count_list (drop (length (db_calls (proposedDelete alwaysOk)))
                 (db_calls (snd (mcp_confirm_and_execute exampleToken (proposedDelete alwaysOk)))))
     (Query ''DELETE FROM tt'') = 1 \<and>
   pendingOperations (snd (mcp_confirm_and_execute exampleToken (proposedDelete alwaysOk)))
     exampleToken = None \<and>
   mcp_confirm_and_execute exampleToken
       (snd (mcp_confirm_and_execute exampleToken (proposedDelete alwaysOk))) =
     (ToolError (ErrorText invalidTokenMessage),
      snd (mcp_confirm_and_execute exampleToken (proposedDelete alwaysOk)))"
proof -
  have s: "pendingOperations (proposedDelete alwaysOk) exampleToken = Some pendingDelete"
    by code_simp
  have t: "clock (proposedDelete alwaysOk) (clock_reads (proposedDelete alwaysOk))
             - po_timestamp pendingDelete \<le> 5 * 60 * 1000"
    by code_simp
  have p: "pool_connected (proposedDelete alwaysOk)"
    by code_simp
  have r: "db_respond (proposedDelete alwaysOk) (db_calls (proposedDelete alwaysOk))
             (storedCall (po_request pendingDelete)) = Inr okResult"
    by code_simp
  have d: "testAtStart deleteRx (op_sql (po_request pendingDelete))"
    by code_simp
  have c: "storedCall (po_request pendingDelete) = Query ''DELETE FROM tt''"
    by code_simp
  note T = C2_confirm_once_then_expired [OF s t p r disjI2 [OF disjI2 [OF d]], unfolded c]
  show ?thesis
    by (intro conjI) (rule s p d T [THEN conjunct1] T [THEN conjunct2, THEN conjunct1]
      T [THEN conjunct2, THEN conjunct2, THEN conjunct1]
      T [THEN conjunct2, THEN conjunct2, THEN conjunct2, THEN conjunct1]
      T [THEN conjunct2, THEN conjunct2, THEN conjunct2, THEN conjunct2])+
qed

text \<open>
  The claim as stated fails when the database throws on the first confirmation: the
  token stays in the store, and the second call with the same token does not answer
  "invalid or expired" but executes the DELETE.
\<close>

theorem C2_retry_after_failure_counterexample:
  "fst (mcp_execute_query ''DELETE FROM tt'' (exampleWorld (failsAt 1))) =
     ToolError (ConfirmationRequired
       \<lparr>requiresConfirmation = True, operation = ''DELETE'', riskLevel = HIGH,
        reason = ''High-risk DELETE operation that can permanently remove data''\<rparr>
       \<lparr>estimatedRows = 1, affectedTables = [''tt''], warning = None\<rparr>
       exampleToken) \<and>
   fst (mcp_confirm_and_execute exampleToken (proposedDelete (failsAt 1))) =
     ToolError (ErrorText ''Transaction was deadlocked'') \<and>
   fst (mcp_confirm_and_execute exampleToken
          (snd (mcp_confirm_and_execute exampleToken (proposedDelete (failsAt 1))))) =
     ToolSuccess (ExecutionReport 1 [[(''estimated_rows'', 1)]]) \<and>
   db_calls (snd (mcp_confirm_and_execute exampleToken
          (snd (mcp_confirm_and_execute exampleToken (proposedDelete (failsAt 1)))))) =
     [Query ''SELECT COUNT(*) AS estimated_rows FROM tt'', Query ''DELETE FROM tt'',
      Query ''DELETE FROM tt'', Query ''SELECT COUNT(*) AS estimated_rows FROM tt'']"
  by code_simp

text \<open>
  C3 (as amended). A confirmation that finds its token within the five minutes does not
  invalidate it at the fetch: \<open>getPendingOperation\<close> leaves the entry in the store. The
  token is removed only after the database has executed the stored operation without an
  error; when the pool is not connected or the database throws, the call returns the
  error and the entry is still stored under the token.
\<close>

theorem C3_token_removed_after_success_only:
  assumes stored: "pendingOperations w t = Some p"
    and ttl: "clock w (clock_reads w) - po_timestamp p \<le> 5 * 60 * 1000"
  shows "pendingOperations (snd (getPendingOperation t w)) t = Some p \<and>
         (pool_connected w \<and>
          (\<exists>result. db_respond w (db_calls w) (storedCall (po_request p)) = Inr result) \<longrightarrow>
            pendingOperations (snd (mcp_confirm_and_execute t w)) t = None) \<and>
         (\<not> pool_connected w \<or>
          (\<exists>err. db_respond w (db_calls w) (storedCall (po_request p)) = Inl err) \<longrightarrow>
            (\<exists>msg. fst (mcp_confirm_and_execute t w) = ToolError (ErrorText msg)) \<and>
            pendingOperations (snd (mcp_confirm_and_execute t w)) t = Some p)"
proof (intro conjI impI)
  show "pendingOperations (snd (getPendingOperation t w)) t = Some p"
    using stored by (simp add: getPendingOperation_hit [OF stored ttl])
next
  assume "pool_connected w \<and>
          (\<exists>result. db_respond w (db_calls w) (storedCall (po_request p)) = Inr result)"
  then obtain result where "pool_connected w"
    and "db_respond w (db_calls w) (storedCall (po_request p)) = Inr result" by blast
  from confirm_hit_success(3) [OF stored ttl this]
  show "pendingOperations (snd (mcp_confirm_and_execute t w)) t = None" by simp
next
  assume "\<not> pool_connected w \<or>
          (\<exists>err. db_respond w (db_calls w) (storedCall (po_request p)) = Inl err)"
  then obtain err where
    bad: "\<not> pool_connected w \<or> db_respond w (db_calls w) (storedCall (po_request p)) = Inl err"
    by blast
  show "\<exists>msg. fst (mcp_confirm_and_execute t w) = ToolError (ErrorText msg)"
    using confirm_hit_failure(1) [OF stored ttl bad] .
  show "pendingOperations (snd (mcp_confirm_and_execute t w)) t = Some p"
    using confirm_hit_failure(2) [OF stored ttl bad] stored by simp
qed

theorem C3_token_removed_after_success_only_witness:
  "pendingOperations (proposedProcedure alwaysOk) exampleToken = Some pendingProcedure \<and>
   pendingOperations (snd (getPendingOperation exampleToken (proposedProcedure alwaysOk)))
     exampleToken = Some pendingProcedure \<and>
   pendingOperations (snd (mcp_confirm_and_execute exampleToken (proposedProcedure alwaysOk)))
     exampleToken = None \<and>
   pendingOperations (proposedProcedure (failsAt 0)) exampleToken = Some pendingProcedure \<and>
   (\<exists>msg. fst (mcp_confirm_and_execute exampleToken (proposedProcedure (failsAt 0))) =
           ToolError (ErrorText msg)) \<and>
   pendingOperations (snd (mcp_confirm_and_execute exampleToken (proposedProcedure (failsAt 0))))
     exampleToken = Some pendingProcedure"
proof -
  have s1: "pendingOperations (proposedProcedure alwaysOk) exampleToken = Some pendingProcedure"
    by code_simp
  have t1: "clock (proposedProcedure alwaysOk) (clock_reads (proposedProcedure alwaysOk))
              - po_timestamp pendingProcedure \<le> 5 * 60 * 1000"
    by code_simp
  have p1: "pool_connected (proposedProcedure alwaysOk)"
    by code_simp
  have r1: "db_respond (proposedProcedure alwaysOk) (db_calls (proposedProcedure alwaysOk))
              (storedCall (po_request pendingProcedure)) = Inr okResult"
    by code_simp
  have s2: "pendingOperations (proposedProcedure (failsAt 0)) exampleToken = Some pendingProcedure"
    by code_simp
  have t2: "clock (proposedProcedure (failsAt 0)) (clock_reads (proposedProcedure (failsAt 0)))
              - po_timestamp pendingProcedure \<le> 5 * 60 * 1000"
    by code_simp
  have r2: "db_respond (proposedProcedure (failsAt 0)) (db_calls (proposedProcedure (failsAt 0)))
              (storedCall (po_request pendingProcedure)) = Inl ''Transaction was deadlocked''"
    by code_simp
  show ?thesis
    using C3_token_removed_after_success_only [OF s1 t1]
      C3_token_removed_after_success_only [OF s2 t2] s1 s2 p1 r1 r2
    by auto
qed

text \<open>
  The claim as stated fails: the first confirmation of a procedure call finds the token,
  the database throws, and the later confirmation with the same token executes the
  procedure.
\<close>

theorem C3_token_reused_after_error_counterexample:
  "fst (mcp_confirm_and_execute exampleToken (proposedProcedure (failsAt 0))) =
     ToolError (ErrorText ''Transaction was deadlocked'') \<and>
   db_calls (snd (mcp_confirm_and_execute exampleToken (proposedProcedure (failsAt 0)))) =
     [Execute ''usp_PurgeOrders'' []] \<and>
   fst (mcp_confirm_and_execute exampleToken
          (snd (mcp_confirm_and_execute exampleToken (proposedProcedure (failsAt 0))))) =
     ToolSuccess (ExecutionReport 1 [[(''estimated_rows'', 1)]]) \<and>
   db_calls (snd (mcp_confirm_and_execute exampleToken
          (snd (mcp_confirm_and_execute exampleToken (proposedProcedure (failsAt 0)))))) =
     [Execute ''usp_PurgeOrders'' [], Execute ''usp_PurgeOrders'' []]"
  by code_simp

lemma query_proposal_audit:
  assumes "audit_writable w" and "pool_connected w" and "requiresConfirmation (analyzeQuery query)"
  shows "\<exists>e. audit_log (snd (mcp_execute_query query w)) = audit_log w @ [e] \<and>
             ae_result e = Some CANCELLED \<and> ae_error e = Some ''Pending user confirmation''"
  using assms
  by (simp add: mcp_execute_query_def Let_def case_prod_beta newDate_def getPool_def
      estimateImpact_world generateConfirmationToken_def mathRandom_def
      storePendingOperation_def cleanupExpiredTokens_def logSecurityEvent_def)

lemma procedure_proposal:
  assumes "\<not> testAtStart readOnlyProcedureRx sp_name"
  shows "\<exists>token. fst (mcp_execute_procedure sp_name ps w) =
           ToolError (ConfirmationRequired
             \<lparr>requiresConfirmation = True, operation = ''EXECUTE'', riskLevel = MEDIUM,
              reason = ''Stored procedure execution may modify data''\<rparr>
             \<lparr>estimatedRows = 0, affectedTables = [''Unknown - Stored Procedure''], warning = None\<rparr>
             token)"
    and "db_calls (snd (mcp_execute_procedure sp_name ps w)) = db_calls w"
    and "audit_writable w \<Longrightarrow>
         \<exists>e. audit_log (snd (mcp_execute_procedure sp_name ps w)) = audit_log w @ [e] \<and>
             ae_result e = Some CANCELLED \<and> ae_error e = Some ''Pending user confirmation''"
  using assms
  by (simp_all add: mcp_execute_procedure_def Let_def case_prod_beta newDate_def
      generateConfirmationToken_def mathRandom_def
      storePendingOperation_def cleanupExpiredTokens_def logSecurityEvent_def)

lemma procedure_direct:
  assumes "testAtStart readOnlyProcedureRx sp_name" and "pool_connected w"
  shows "db_calls (snd (mcp_execute_procedure sp_name ps w)) =
           db_calls w @ [Execute sp_name (paramsOf ps)]"
    and "pendingOperations (snd (mcp_execute_procedure sp_name ps w)) = pendingOperations w"
  using assms
  by (auto simp add: mcp_execute_procedure_def Let_def case_prod_beta newDate_def getPool_def
      db_request_def procedureFailed_def logSecurityEvent_def split: sum.splits)

lemma readOnlyProcedure_prefixes:
  "testAtStart readOnlyProcedureRx sp_name =
     list_ex (startsWithI sp_name)
       [''usp_Get'', ''usp_Select'', ''usp_Search'', ''usp_Find'', ''usp_List'', ''usp_View'']"
  by (simp add: testAtStart_def matchHere_def readOnlyProcedureRx_def)

text \<open>
  C7 (as amended). A proposal that a disabled feature flag refuses writes no audit event.
  While the audit file can be written: a query proposal that requires confirmation
  (pool connected) and a procedure proposal outside the read-only prefixes each append
  exactly one event, with result CANCELLED and error "Pending user confirmation"; a
  confirmation that finds its token within the five minutes appends exactly one event,
  marked as confirmed by the user, with result SUCCESS or FAILED.
\<close>

theorem C7_audit_events:
  "(\<not> ALLOW_MODIFICATIONS cfg \<and> containsModificationOperations query \<longrightarrow>
      audit_log (snd (mcp_execute_query_flagged cfg query w)) = audit_log w) \<and>
   (\<not> ALLOW_STORED_PROCEDURES cfg \<longrightarrow>
      audit_log (snd (mcp_execute_procedure_flagged cfg sp_name ps w)) = audit_log w) \<and>
   (audit_writable w \<and> pool_connected w \<and> requiresConfirmation (analyzeQuery query) \<longrightarrow>
      (\<exists>e. audit_log (snd (mcp_execute_query query w)) = audit_log w @ [e] \<and>
           ae_result e = Some CANCELLED \<and> ae_error e = Some ''Pending user confirmation'')) \<and>
   (audit_writable w \<and> \<not> testAtStart readOnlyProcedureRx sp_name \<longrightarrow>
      (\<exists>e. audit_log (snd (mcp_execute_procedure sp_name ps w)) = audit_log w @ [e] \<and>
           ae_result e = Some CANCELLED \<and> ae_error e = Some ''Pending user confirmation'')) \<and>
   (audit_writable w \<and> pendingOperations w t = Some p \<and>
    clock w (clock_reads w) - po_timestamp p \<le> 5 * 60 * 1000 \<longrightarrow>
      (\<exists>e. audit_log (snd (mcp_confirm_and_execute t w)) = audit_log w @ [e] \<and>
           ae_userConfirmed e \<and> (ae_result e = Some SUCCESS \<or> ae_result e = Some FAILED)))"
proof (intro conjI impI)
  assume "\<not> ALLOW_MODIFICATIONS cfg \<and> containsModificationOperations query"
  then obtain a b where "mcp_execute_query_flagged cfg query w =
      (ToolError (ErrorText (a @ ''DB_ALLOW_MODIFICATIONS=true'' @ b)), w)"
    using flagged_query_blocked by blast
  then show "audit_log (snd (mcp_execute_query_flagged cfg query w)) = audit_log w" by simp
next
  assume "\<not> ALLOW_STORED_PROCEDURES cfg"
  then obtain a b where "mcp_execute_procedure_flagged cfg sp_name ps w =
      (ToolError (ErrorText (a @ ''DB_ALLOW_STORED_PROCEDURES=true'' @ b)), w)"
    using flagged_procedure_blocked by blast
  then show "audit_log (snd (mcp_execute_procedure_flagged cfg sp_name ps w)) = audit_log w"
    by simp
next
  assume "audit_writable w \<and> pool_connected w \<and> requiresConfirmation (analyzeQuery query)"
  then show "\<exists>e. audit_log (snd (mcp_execute_query query w)) = audit_log w @ [e] \<and>
           ae_result e = Some CANCELLED \<and> ae_error e = Some ''Pending user confirmation''"
    using query_proposal_audit by blast
next
  assume "audit_writable w \<and> \<not> testAtStart readOnlyProcedureRx sp_name"
  then show "\<exists>e. audit_log (snd (mcp_execute_procedure sp_name ps w)) = audit_log w @ [e] \<and>
           ae_result e = Some CANCELLED \<and> ae_error e = Some ''Pending user confirmation''"
    using procedure_proposal(3) by blast
next
  assume a: "audit_writable w \<and> pendingOperations w t = Some p \<and>
    clock w (clock_reads w) - po_timestamp p \<le> 5 * 60 * 1000"
  then have wr: "audit_writable w" and stored: "pendingOperations w t = Some p"
    and ttl: "clock w (clock_reads w) - po_timestamp p \<le> 5 * 60 * 1000" by simp_all
  show "\<exists>e. audit_log (snd (mcp_confirm_and_execute t w)) = audit_log w @ [e] \<and>
           ae_userConfirmed e \<and> (ae_result e = Some SUCCESS \<or> ae_result e = Some FAILED)"
  proof (cases "pool_connected w")
    case False
    then have "\<not> pool_connected w \<or>
        db_respond w (db_calls w) (storedCall (po_request p)) = Inl []" by simp
    from confirm_hit_failure(3) [OF stored ttl this wr] show ?thesis by blast
  next
    case True
    show ?thesis
    proof (cases "db_respond w (db_calls w) (storedCall (po_request p))")
      case (Inl err)
      then have "\<not> pool_connected w \<or>
          db_respond w (db_calls w) (storedCall (po_request p)) = Inl err" by simp
      from confirm_hit_failure(3) [OF stored ttl this wr] show ?thesis by blast
    next
      case (Inr result)
      from confirm_hit_success(4) [OF stored ttl True Inr wr] show ?thesis by blast
    qed
  qed
qed

theorem C7_audit_events_witness:
  "\<not> ALLOW_MODIFICATIONS flagsOff \<and> \<not> ALLOW_STORED_PROCEDURES flagsOff \<and>
   containsModificationOperations ''DELETE FROM tt'' \<and>
   audit_writable (proposedDelete alwaysOk) \<and> pool_connected (proposedDelete alwaysOk) \<and>
   requiresConfirmation (analyzeQuery ''DELETE FROM tt'') \<and>
   \<not> testAtStart readOnlyProcedureRx ''usp_PurgeOrders'' \<and>
   pendingOperations (proposedDelete alwaysOk) exampleToken = Some pendingDelete \<and>
   audit_log (snd (mcp_execute_query_flagged flagsOff ''DELETE FROM tt'' (proposedDelete alwaysOk))) =
     audit_log (proposedDelete alwaysOk) \<and>
   audit_log (snd (mcp_execute_procedure_flagged flagsOff ''usp_PurgeOrders'' None
                     (proposedDelete alwaysOk))) =
     audit_log (proposedDelete alwaysOk) \<and>
   (\<exists>e. audit_log (snd (mcp_execute_query ''DELETE FROM tt'' (proposedDelete alwaysOk))) =
          audit_log (proposedDelete alwaysOk) @ [e] \<and>
        ae_result e = Some CANCELLED \<and> ae_error e = Some ''Pending user confirmation'') \<and>
   (\<exists>e. audit_log (snd (mcp_execute_procedure ''usp_PurgeOrders'' None (proposedDelete alwaysOk))) =
          audit_log (proposedDelete alwaysOk) @ [e] \<and>
        ae_result e = Some CANCELLED \<and> ae_error e = Some ''Pending user confirmation'') \<and>
   (\<exists>e. audit_log (snd (mcp_confirm_and_execute exampleToken (proposedDelete alwaysOk))) =
          audit_log (proposedDelete alwaysOk) @ [e] \<and>
        ae_userConfirmed e \<and> (ae_result e = Some SUCCESS \<or> ae_result e = Some FAILED))"
proof -
  have m: "\<not> ALLOW_MODIFICATIONS flagsOff" by (simp add: flagsOff_def)
  have sp: "\<not> ALLOW_STORED_PROCEDURES flagsOff" by (simp add: flagsOff_def)
  have c: "containsModificationOperations ''DELETE FROM tt''" by code_simp
  have aw: "audit_writable (proposedDelete alwaysOk)" by code_simp
  have pc: "pool_connected (proposedDelete alwaysOk)" by code_simp
  have rc: "requiresConfirmation (analyzeQuery ''DELETE FROM tt'')" by code_simp
  have ro: "\<not> testAtStart readOnlyProcedureRx ''usp_PurgeOrders''" by code_simp
  have s: "pendingOperations (proposedDelete alwaysOk) exampleToken = Some pendingDelete"
    by code_simp
  have t: "clock (proposedDelete alwaysOk) (clock_reads (proposedDelete alwaysOk))
             - po_timestamp pendingDelete \<le> 5 * 60 * 1000"
    by code_simp
  show ?thesis
    using C7_audit_events [of flagsOff "''DELETE FROM tt''" "proposedDelete alwaysOk"
        "''usp_PurgeOrders''" None exampleToken pendingDelete] m sp c aw pc rc ro s t
    by simp
qed

text \<open>
  The claim as stated fails for a proposal that a disabled flag refuses: nothing is
  written to the audit file.
\<close>

theorem C7_blocked_proposal_not_logged_counterexample:
  "\<not> ALLOW_MODIFICATIONS flagsOff \<and>
   \<not> allowed (validateQueryPermission flagsOff ''DELETE FROM tt'') \<and>
   audit_log (snd (mcp_execute_query_flagged flagsOff ''DELETE FROM tt'' (exampleWorld alwaysOk))) = [] \<and>
   db_calls (snd (mcp_execute_query_flagged flagsOff ''DELETE FROM tt'' (exampleWorld alwaysOk))) = [] \<and>
   \<not> allowed (validateStoredProcedurePermission flagsOff ''usp_PurgeOrders'') \<and>
   audit_log (snd (mcp_execute_procedure_flagged flagsOff ''usp_PurgeOrders'' None
                     (exampleWorld alwaysOk))) = []"
  by code_simp

text \<open>
  C9 (as amended). \<open>mcp_execute_procedure\<close> bypasses confirmation exactly when the name
  as given starts, without regard to case, with one of usp_Get, usp_Select, usp_Search,
  usp_Find, usp_List, usp_View. Every other name is answered with a request for
  confirmation of MEDIUM risk, and on that path nothing is sent to the database, so no
  procedure body is read. A name with one of the prefixes is executed at once when the
  pool is connected, and nothing is stored for confirmation.
\<close>

theorem C9_procedure_whitelist:
  "testAtStart readOnlyProcedureRx sp_name =
     list_ex (startsWithI sp_name)
       [''usp_Get'', ''usp_Select'', ''usp_Search'', ''usp_Find'', ''usp_List'', ''usp_View''] \<and>
   (\<not> testAtStart readOnlyProcedureRx sp_name \<longrightarrow>
      (\<exists>token. fst (mcp_execute_procedure sp_name ps w) =
         ToolError (ConfirmationRequired
           \<lparr>requiresConfirmation = True, operation = ''EXECUTE'', riskLevel = MEDIUM,
            reason = ''Stored procedure execution may modify data''\<rparr>
           \<lparr>estimatedRows = 0, affectedTables = [''Unknown - Stored Procedure''], warning = None\<rparr>
           token)) \<and>
      db_calls (snd (mcp_execute_procedure sp_name ps w)) = db_calls w) \<and>
   (testAtStart readOnlyProcedureRx sp_name \<and> pool_connected w \<longrightarrow>
      db_calls (snd (mcp_execute_procedure sp_name ps w)) =
        db_calls w @ [Execute sp_name (paramsOf ps)] \<and>
      pendingOperations (snd (mcp_execute_procedure sp_name ps w)) = pendingOperations w)"
  using readOnlyProcedure_prefixes procedure_proposal(1,2) procedure_direct
  by blast

theorem C9_procedure_whitelist_witness:
  "\<not> testAtStart readOnlyProcedureRx ''usp_PurgeOrders'' \<and>
   (\<exists>token. fst (mcp_execute_procedure ''usp_PurgeOrders'' None (exampleWorld alwaysOk)) =
      ToolError (ConfirmationRequired
        \<lparr>requiresConfirmation = True, operation = ''EXECUTE'', riskLevel = MEDIUM,
         reason = ''Stored procedure execution may modify data''\<rparr>
        \<lparr>estimatedRows = 0, affectedTables = [''Unknown - Stored Procedure''], warning = None\<rparr>
        token)) \<and>
   db_calls (snd (mcp_execute_procedure ''usp_PurgeOrders'' None (exampleWorld alwaysOk))) =
     db_calls (exampleWorld alwaysOk) \<and>
   testAtStart readOnlyProcedureRx ''USP_getOrders'' \<and> pool_connected (exampleWorld alwaysOk) \<and>
   db_calls (snd (mcp_execute_procedure ''USP_getOrders'' None (exampleWorld alwaysOk))) =
     db_calls (exampleWorld alwaysOk) @ [Execute ''USP_getOrders'' (paramsOf None)] \<and>
   pendingOperations (snd (mcp_execute_procedure ''USP_getOrders'' None (exampleWorld alwaysOk))) =
     pendingOperations (exampleWorld alwaysOk)"
proof -
  have n: "\<not> testAtStart readOnlyProcedureRx ''usp_PurgeOrders''" by code_simp
  have y: "testAtStart readOnlyProcedureRx ''USP_getOrders''" by code_simp
  have p: "pool_connected (exampleWorld alwaysOk)" by (simp add: exampleWorld_def)
  show ?thesis
    using C9_procedure_whitelist [of "''usp_PurgeOrders''" None "exampleWorld alwaysOk"]
      C9_procedure_whitelist [of "''USP_getOrders''" None "exampleWorld alwaysOk"] n y p
    by simp
qed

text \<open>
  The claim as stated fails for a name that starts with Get but not with usp_Get, and
  for a schema-qualified name: both are answered with a request for confirmation.
\<close>

theorem C9_get_prefix_counterexample:
  "startsWithI ''GetUsers'' ''Get'' \<and>
   fst (mcp_execute_procedure ''GetUsers'' None (exampleWorld alwaysOk)) =
     ToolError (ConfirmationRequired
       \<lparr>requiresConfirmation = True, operation = ''EXECUTE'', riskLevel = MEDIUM,
        reason = ''Stored procedure execution may modify data''\<rparr>
       \<lparr>estimatedRows = 0, affectedTables = [''Unknown - Stored Procedure''], warning = None\<rparr>
       ''CONF_1_K3X9Q2'') \<and>
   db_calls (snd (mcp_execute_procedure ''GetUsers'' None (exampleWorld alwaysOk))) = [] \<and>
   fst (mcp_execute_procedure ''[dbo].[usp_GetUsers]'' None (exampleWorld alwaysOk)) =
     ToolError (ConfirmationRequired
       \<lparr>requiresConfirmation = True, operation = ''EXECUTE'', riskLevel = MEDIUM,
        reason = ''Stored procedure execution may modify data''\<rparr>
       \<lparr>estimatedRows = 0, affectedTables = [''Unknown - Stored Procedure''], warning = None\<rparr>
       ''CONF_1_K3X9Q2'')"
  by code_simp

end
